theory Spec2Isabelle
  imports Main "HOL-Library.Word"
begin

section \<open>Rootless slirp4netns networking set-up (libpod): a shallow embedding\<close>

text \<open>
  The theory follows \<^verbatim>\<open>pkg/domain/infra/tunnel/play.go\<close>, second document of the
  file (package \<^verbatim>\<open>libpod\<close>): option parsing, command construction, the readiness
  wait and the two port-forwarding strategies. Functions of the Go standard library and
  of the host (\<^verbatim>\<open>net.ParseIP\<close>, \<^verbatim>\<open>net.ParseCIDR\<close>, \<^verbatim>\<open>strconv.Atoi\<close>,
  \<^verbatim>\<open>net.InterfaceByName\<close>, ...) are not part of the repository: the model takes them
  as parameters, collected in the records \<open>golib\<close> and \<open>world\<close>.
\<close>

subsection \<open>Errors\<close>

text \<open>
  \<^verbatim>\<open>errors.Errorf(format, args...)\<close> and \<^verbatim>\<open>errors.Wrapf(err, format, args...)\<close> keep
  their format string and their arguments, unrendered. \<open>OSError msg t\<close> is an error
  coming from the operating system or from a library, with its message and the answer of
  its \<^verbatim>\<open>Timeout()\<close> method. \<open>Panic\<close> is a run-time panic of the function.
\<close>

datatype json = JNull | JBool bool | JNum int | JStr string
  | JArr "json list" | JObj "(string \<times> json) list"

datatype error =
    Errorf string "arg list"
  | Wrapf error string "arg list"
  | Wrap error string
  | OSError string bool
  | Panic string
and arg = AStr string | AInt int | AErr error | AJson json

text \<open>\<^verbatim>\<open>os.IsTimeout(err)\<close>\<close>

fun IsTimeout :: "error \<Rightarrow> bool" where
  "IsTimeout (OSError m t) = t"
| "IsTimeout e = False"

text \<open>\<^verbatim>\<open>io.EOF\<close>\<close>

definition EOF :: error where
  "EOF = OSError ''EOF'' False"

subsection \<open>Data\<close>

type_synonym byte = "8 word"

text \<open>\<^verbatim>\<open>net.IP\<close> is a byte slice (4 or 16 bytes); \<^verbatim>\<open>net.IPNet\<close> has an address and a mask.\<close>

type_synonym IP = "byte list"

record IPNet =
  IPNet_IP :: IP
  IPNet_Mask :: "byte list"

record slirpFeatures =
  HasDisableHostLoopback :: bool
  HasMTU :: bool
  HasEnableSandbox :: bool
  HasEnableSeccomp :: bool
  HasCIDR :: bool
  HasOutboundAddr :: bool
  HasIPv6 :: bool

record slirp4netnsNetworkOptions =
  cidr :: string
  disableHostLoopback :: bool
  enableIPv6 :: bool
  isSlirpHostForward :: bool
  noPivotRoot :: bool
  mtu :: int
  outboundAddr :: string
  outboundAddr6 :: string

text \<open>
  A port mapping of the container (the fields the code reads) and the command of the
  control-socket protocol.
\<close>

type_synonym int32 = "32 word"

record PortMapping =
  HostIP :: string
  Protocol :: string
  HostPort :: int32
  ContainerPort :: int32

record slirp4netnsCmdArg =
  Proto :: string
  HostAddr :: string
  HostPort :: int32
  GuestAddr :: string
  GuestPort :: int32

record slirp4netnsCmd =
  Execute :: string
  Args :: slirp4netnsCmdArg

text \<open>\<^verbatim>\<open>rootlessport.Config\<close>, the configuration handed to the re-executed forwarder.\<close>

record rootlessportConfig =
  Mappings :: "PortMapping list"
  NetNSPath :: string
  ExitFD :: int
  ReadyFD :: int
  cfg_TmpDir :: string
  ChildIP :: string

text \<open>The part of \<^verbatim>\<open>r.config.Engine\<close> that the code reads.\<close>

record EngineConfig =
  NetworkCmdPath :: string
  NetworkCmdOptions :: "string list"
  NoPivotRoot :: bool
  TmpDir :: string

text \<open>
  Package-level constants of libpod that are declared outside this file
  (\<^verbatim>\<open>slirp4netnsMTU\<close>, \<^verbatim>\<open>slirp4netnsIP\<close>, \<^verbatim>\<open>rootlessport.ReexecKey\<close>):
  parameters of the model.
\<close>

record pkgconsts =
  slirp4netnsMTU :: int
  slirp4netnsIP :: string
  ReexecKey :: string

text \<open>Functions of the Go standard library that the code calls: parameters of the model.\<close>

record golib =
  net_ParseIP :: "string \<Rightarrow> IP option"
  net_ParseCIDR :: "string \<Rightarrow> error + (IP \<times> IPNet)"
  strconv_Atoi :: "string \<Rightarrow> int \<times> error option"
  IP_String_other :: "IP \<Rightarrow> string"
  filepath_Base :: "string \<Rightarrow> string"
  filepath_Join :: "string list \<Rightarrow> string"
  json_Marshal_cmd :: "slirp4netnsCmd \<Rightarrow> error + string"
  json_Marshal_cfg :: "rootlessportConfig \<Rightarrow> error + string"
  json_Unmarshal :: "string \<Rightarrow> error + (string \<rightharpoonup> json)"

subsection \<open>Small library functions, modelled directly\<close>

text \<open>
  \<^verbatim>\<open>strings.SplitN(s, "=", 2)\<close>: the string itself when it has no separator, else the
  part before the first separator and everything after it.
\<close>

definition SplitN2 :: "char \<Rightarrow> string \<Rightarrow> string list" where
  "SplitN2 sep s =
     (if sep \<in> set s
      then [takeWhile (\<lambda>c. c \<noteq> sep) s, tl (dropWhile (\<lambda>c. c \<noteq> sep) s)]
      else [s])"

text \<open>\<^verbatim>\<open>IP.To4()\<close>: a 4-byte address, or a 16-byte IPv4-mapped one, as 4 bytes; else nil.\<close>

definition To4 :: "IP \<Rightarrow> IP option" where
  "To4 ip =
     (if length ip = 4 then Some ip
      else if length ip = 16 \<and> list_all (\<lambda>b. b = 0) (take 10 ip)
              \<and> ip ! 10 = 0xff \<and> ip ! 11 = 0xff
      then Some (drop 12 ip)
      else None)"

text \<open>\<^verbatim>\<open>fmt.Sprintf("%d", n)\<close>\<close>

definition digit_char :: "nat \<Rightarrow> char" where
  "digit_char d = ''0123456789'' ! d"

function dec_nat :: "nat \<Rightarrow> string" where
  "dec_nat n = (if n < 10 then [digit_char n] else dec_nat (n div 10) @ [digit_char (n mod 10)])"
  by pat_completeness auto
termination
  by (relation "measure id") auto

definition fmt_d :: "int \<Rightarrow> string" where
  "fmt_d n = (if n < 0 then CHR ''-'' # dec_nat (nat (- n)) else dec_nat (nat n))"

subsection \<open>parseSlirp4netnsNetworkOptions\<close>

text \<open>
  The \<^verbatim>\<open>switch option\<close> of the loop body, on the options record built so far:
  \<open>raw\<close> is the whole option string, \<open>option\<close> and \<open>val\<close> its two parts.
  \<open>ifByName\<close> is \<^verbatim>\<open>net.InterfaceByName\<close> on the host, reduced to its error.
\<close>

definition switchOption ::
  "golib \<Rightarrow> (string \<Rightarrow> error option) \<Rightarrow> slirp4netnsNetworkOptions \<Rightarrow> string
     \<Rightarrow> string \<Rightarrow> string \<Rightarrow> error + slirp4netnsNetworkOptions" where
  "switchOption L ifByName opts raw option val =
     (if option = ''cidr'' then
        (case net_ParseCIDR L val of
           Inl err \<Rightarrow> Inl (Errorf ''invalid cidr %q'' [AStr val])
         | Inr (ipv4, n) \<Rightarrow>
             if To4 ipv4 = None then Inl (Errorf ''invalid cidr %q'' [AStr val])
             else Inr (opts\<lparr>cidr := val\<rparr>))
      else if option = ''port_handler'' then
        (if val = ''slirp4netns'' then Inr (opts\<lparr>isSlirpHostForward := True\<rparr>)
         else if val = ''rootlesskit'' then Inr (opts\<lparr>isSlirpHostForward := False\<rparr>)
         else Inl (Errorf ''unknown port_handler for slirp4netns: %q'' [AStr val]))
      else if option = ''allow_host_loopback'' then
        (if val = ''true'' then Inr (opts\<lparr>disableHostLoopback := False\<rparr>)
         else if val = ''false'' then Inr (opts\<lparr>disableHostLoopback := True\<rparr>)
         else Inl (Errorf ''invalid value of allow_host_loopback for slirp4netns: %q''
                     [AStr val]))
      else if option = ''enable_ipv6'' then
        (if val = ''true'' then Inr (opts\<lparr>enableIPv6 := True\<rparr>)
         else if val = ''false'' then Inr (opts\<lparr>enableIPv6 := False\<rparr>)
         else Inl (Errorf ''invalid value of enable_ipv6 for slirp4netns: %q'' [AStr val]))
      else if option = ''outbound_addr'' then
        (if (case net_ParseIP L val of None \<Rightarrow> True | Some ipv4 \<Rightarrow> To4 ipv4 = None)
            \<and> ifByName val \<noteq> None
         then Inl (Errorf ''invalid outbound_addr %q'' [AStr val])
         else Inr (opts\<lparr>outboundAddr := val\<rparr>))
      else if option = ''outbound_addr6'' then
        (if (case net_ParseIP L val of None \<Rightarrow> True | Some ipv6 \<Rightarrow> To4 ipv6 \<noteq> None)
            \<and> ifByName val \<noteq> None
         then Inl (Errorf ''invalid outbound_addr6: %q'' [AStr val])
         else Inr (opts\<lparr>outboundAddr6 := val\<rparr>))
      else if option = ''mtu'' then
        (case strconv_Atoi L val of
           (n, err) \<Rightarrow>
             let opts' = opts\<lparr>mtu := n\<rparr> in
             if mtu opts' < 68 \<or> err \<noteq> None
             then Inl (Errorf ''invalid mtu %q'' [AStr val])
             else Inr opts')
      else Inl (Errorf ''unknown option for slirp4netns: %q'' [AStr raw]))"

text \<open>The body of the loop: split at the first \<^verbatim>\<open>=\<close>, then the switch.\<close>

definition parseOption ::
  "golib \<Rightarrow> (string \<Rightarrow> error option) \<Rightarrow> slirp4netnsNetworkOptions \<Rightarrow> string
     \<Rightarrow> error + slirp4netnsNetworkOptions" where
  "parseOption L ifByName opts raw =
     (let parts = SplitN2 CHR ''='' raw in
      if length parts < 2
      then Inl (Errorf ''unknown option for slirp4netns: %q'' [AStr raw])
      else
        let option = parts ! 0; val = parts ! 1 in
        switchOption L ifByName opts raw option val)"

text \<open>The loop: the first error ends it.\<close>

fun parseOptions ::
  "golib \<Rightarrow> (string \<Rightarrow> error option) \<Rightarrow> slirp4netnsNetworkOptions \<Rightarrow> string list
     \<Rightarrow> error + slirp4netnsNetworkOptions" where
  "parseOptions L ifByName opts [] = Inr opts"
| "parseOptions L ifByName opts (raw # rest) =
     (case parseOption L ifByName opts raw of
        Inl e \<Rightarrow> Inl e
      | Inr opts' \<Rightarrow> parseOptions L ifByName opts' rest)"

text \<open>The options record the parser starts from: the zero value with three fields overwritten.\<close>

definition defaultOptions :: "pkgconsts \<Rightarrow> EngineConfig \<Rightarrow> slirp4netnsNetworkOptions" where
  "defaultOptions K cfg =
     \<lparr>cidr = '''', disableHostLoopback = True, enableIPv6 = False,
      isSlirpHostForward = False, noPivotRoot = NoPivotRoot cfg,
      mtu = slirp4netnsMTU K, outboundAddr = '''', outboundAddr6 = ''''\<rparr>"

definition parseSlirp4netnsNetworkOptions ::
  "golib \<Rightarrow> (string \<Rightarrow> error option) \<Rightarrow> pkgconsts \<Rightarrow> EngineConfig \<Rightarrow> string list
     \<Rightarrow> error + slirp4netnsNetworkOptions" where
  "parseSlirp4netnsNetworkOptions L ifByName K cfg extraOptions =
     (let slirpOptions = NetworkCmdOptions cfg @ extraOptions in
      parseOptions L ifByName (defaultOptions K cfg) slirpOptions)"

subsection \<open>createBasicSlirp4netnsCmdArgs\<close>

text \<open>
  The function appends to \<open>cmdArgs\<close> step by step and returns at the first unsupported
  option; the model threads the list through the same steps.
\<close>

definition createBasicSlirp4netnsCmdArgs ::
  "slirp4netnsNetworkOptions \<Rightarrow> slirpFeatures \<Rightarrow> error + string list" where
  "createBasicSlirp4netnsCmdArgs options features =
     (let cmdArgs = [];
          cmdArgs = (if disableHostLoopback options \<and> HasDisableHostLoopback features
                     then cmdArgs @ [''--disable-host-loopback''] else cmdArgs);
          cmdArgs = (if mtu options > -1 \<and> HasMTU features
                     then cmdArgs @ [''--mtu='' @ fmt_d (mtu options)] else cmdArgs);
          cmdArgs = (if \<not> noPivotRoot options \<and> HasEnableSandbox features
                     then cmdArgs @ [''--enable-sandbox''] else cmdArgs);
          cmdArgs = (if HasEnableSeccomp features
                     then cmdArgs @ [''--enable-seccomp''] else cmdArgs)
      in
      if cidr options \<noteq> '''' \<and> \<not> HasCIDR features
      then Inl (Errorf ''cidr not supported'' [])
      else
        let cmdArgs = (if cidr options \<noteq> '''' then cmdArgs @ [''--cidr='' @ cidr options]
                       else cmdArgs) in
        if enableIPv6 options \<and> \<not> HasIPv6 features
        then Inl (Errorf ''enable_ipv6 not supported'' [])
        else
          let cmdArgs = (if enableIPv6 options then cmdArgs @ [''--enable-ipv6'']
                         else cmdArgs) in
          if outboundAddr options \<noteq> '''' \<and> \<not> HasOutboundAddr features
          then Inl (Errorf ''outbound_addr not supported'' [])
          else
            let cmdArgs = (if outboundAddr options \<noteq> ''''
                           then cmdArgs @ [''--outbound-addr='' @ outboundAddr options]
                           else cmdArgs) in
            if outboundAddr6 options \<noteq> '''' then
              (if \<not> HasOutboundAddr features \<or> \<not> HasIPv6 features
               then Inl (Errorf ''outbound_addr6 not supported'' [])
               else if \<not> enableIPv6 options
               then Inl (Errorf ''enable_ipv6=true is required for outbound_addr6'' [])
               else Inr (cmdArgs @ [''--outbound-addr6='' @ outboundAddr6 options]))
            else Inr cmdArgs)"

subsection \<open>Effects\<close>

text \<open>
  The calls on the operating system are recorded, in order, in a trace of events; their
  results come from the environment. A connection is named by the index of the
  \<^verbatim>\<open>net.Dial\<close> that opened it.
\<close>

datatype event =
    LogErrorf string "arg list"
  | LogDebugf string "arg list"
  | LogDebug "arg list"
  | EvLookPath string
  | EvPipe string
  | EvCloseQuiet string
  | EvCombinedOutput string "string list"
  | EvCreate string
  | EvRemove string
  | EvCloseFile string
  | EvStart string "string list" string bool
  | EvRelease int
  | EvSetDeadline int
  | EvReadSync
  | EvWait4 int
  | EvSeekLog
  | EvReadAllLog
  | EvWaitForFile string
  | EvDial string nat
  | EvConnWrite nat string
  | EvConnCloseWrite nat
  | EvConnRead nat
  | EvConnClose nat
  | EvCloseChan

subsection \<open>waitForSync\<close>

text \<open>
  \<^verbatim>\<open>syscall.WaitStatus\<close> on Linux: the low seven bits are zero for a normal exit, all
  ones for a stopped process, and the number of the signal otherwise.
\<close>

type_synonym WaitStatus = "32 word"

definition Exited :: "WaitStatus \<Rightarrow> bool" where
  "Exited w = (and w 0x7F = 0x00)"

definition Signaled :: "WaitStatus \<Rightarrow> bool" where
  "Signaled w = (and w 0x7F \<noteq> 0x7F \<and> and w 0x7F \<noteq> 0x00)"

text \<open>
  What the environment answers in one iteration of the loop: to \<^verbatim>\<open>syncR.SetDeadline\<close>,
  to \<^verbatim>\<open>syncR.Read\<close> (its error; \<open>None\<close> when bytes were read) and to
  \<^verbatim>\<open>syscall.Wait4(pid, &status, WNOHANG, nil)\<close> (the pid returned, the status, the error).
  An answer is used only if the iteration makes the call.
\<close>

record syncStep =
  setDeadlineErr :: "error option"
  readErr :: "error option"
  wait4Pid :: int
  wait4Status :: WaitStatus
  wait4Err :: "error option"

text \<open>
  The log file behind the \<^verbatim>\<open>io.ReadSeeker\<close>: its bytes, the offset of the descriptor
  (shared with the child, which writes through it), and the errors that \<^verbatim>\<open>Seek\<close>
  and \<^verbatim>\<open>ioutil.ReadAll\<close> would give.
\<close>

record logFile =
  logBytes :: string
  logOffset :: nat
  seekErr :: "error option"
  readAllErr :: "error option"

text \<open>
  The branch of \<^verbatim>\<open>waitForSync\<close> for a child that has exited: seek to the start (a
  failure is only logged), read everything from the offset, fail with the text read.
\<close>

definition exitedBranch :: "string \<Rightarrow> logFile \<Rightarrow> error option \<times> event list" where
  "exitedBranch prog lf =
     (let (off, evs) =
            (case seekErr lf of
               Some err \<Rightarrow> (logOffset lf, [EvSeekLog, LogErrorf ''could not seek log file: %q'' [AErr err]])
             | None \<Rightarrow> (0, [EvSeekLog]));
          logContent = drop off (logBytes lf)
      in case readAllErr lf of
           Some err \<Rightarrow> (Some (Wrapf err ''%s failed'' [AStr prog]), evs @ [EvReadAllLog])
         | None \<Rightarrow> (Some (Errorf ''%s failed: %q'' [AStr prog, AStr logContent]),
                     evs @ [EvReadAllLog]))"

text \<open>
  The loop of \<^verbatim>\<open>waitForSync\<close>, one element of the list for each iteration;
  \<open>timeout\<close> is the \<^verbatim>\<open>time.Duration\<close>, in nanoseconds. The loop
  has no bound of its own: when the observed iterations are used up and the loop has not
  returned, the result is \<open>None\<close>; \<open>Some None\<close> is the return of \<^verbatim>\<open>nil\<close> and
  \<open>Some (Some e)\<close> the return of the error \<open>e\<close>.
\<close>

fun waitLoop ::
  "string \<Rightarrow> int \<Rightarrow> logFile \<Rightarrow> int \<Rightarrow> syncStep list \<Rightarrow> error option option \<times> event list" where
  "waitLoop prog pid lf timeout [] = (None, [])"
| "waitLoop prog pid lf timeout (st # rest) =
     (case setDeadlineErr st of
        Some err \<Rightarrow>
          (Some (Some (Wrapf err ''error setting %s pipe timeout'' [AStr prog])),
           [EvSetDeadline timeout])
      | None \<Rightarrow>
          (case readErr st of
             None \<Rightarrow> (Some None, [EvSetDeadline timeout, EvReadSync])
           | Some err \<Rightarrow>
               if IsTimeout err then
                 (case wait4Err st of
                    Some err \<Rightarrow>
                      (Some (Some (Wrapf err ''failed to read %s process status'' [AStr prog])),
                       [EvSetDeadline timeout, EvReadSync, EvWait4 pid])
                  | None \<Rightarrow>
                      if wait4Pid st \<noteq> pid then
                        (let (r, evs) = waitLoop prog pid lf timeout rest
                         in (r, [EvSetDeadline timeout, EvReadSync, EvWait4 pid] @ evs))
                      else if Exited (wait4Status st) then
                        (let (r, evs) = exitedBranch prog lf
                         in (Some r, [EvSetDeadline timeout, EvReadSync, EvWait4 pid] @ evs))
                      else if Signaled (wait4Status st) then
                        (Some (Some (Errorf ''%s killed by signal'' [AStr prog])),
                         [EvSetDeadline timeout, EvReadSync, EvWait4 pid])
                      else
                        (let (r, evs) = waitLoop prog pid lf timeout rest
                         in (r, [EvSetDeadline timeout, EvReadSync, EvWait4 pid] @ evs)))
               else
                 (Some (Some (Wrapf err ''failed to read from %s sync pipe'' [AStr prog])),
                  [EvSetDeadline timeout, EvReadSync])))"

text \<open>\<^verbatim>\<open>exec.Cmd\<close>: the path, the arguments and \<^verbatim>\<open>cmd.Process.Pid\<close>.\<close>

record Cmd =
  cmd_Path :: string
  cmd_Args :: "string list"
  cmd_Pid :: int

text \<open>The name of the program in the messages.\<close>

definition progOf :: "golib \<Rightarrow> Cmd \<Rightarrow> string" where
  "progOf L cmd =
     (let prog = filepath_Base L (cmd_Path cmd)
      in if length (cmd_Args cmd) > 0 then cmd_Args cmd ! 0 else prog)"

definition waitForSync ::
  "golib \<Rightarrow> syncStep list \<Rightarrow> Cmd \<Rightarrow> logFile \<Rightarrow> int \<Rightarrow> error option option \<times> event list" where
  "waitForSync L syncR cmd lf timeout =
     waitLoop (progOf L cmd) (cmd_Pid cmd) lf timeout syncR"

subsection \<open>setupRootlessPortMappingViaSlirp\<close>

text \<open>
  What the environment answers on one connection to the control socket: to
  \<^verbatim>\<open>net.Dial\<close>, \<^verbatim>\<open>conn.Write\<close>, \<^verbatim>\<open>CloseWrite\<close>, \<^verbatim>\<open>conn.Read\<close> (the bytes
  received) and to the deferred \<^verbatim>\<open>conn.Close\<close>.
\<close>

record connAnswers =
  dialErr :: "error option"
  writeErr :: "error option"
  closeWriteErr :: "error option"
  readAns :: "error + string"
  closeErr :: "error option"

text \<open>The command sent for one mapping.\<close>

definition apiCmdOf :: "PortMapping \<Rightarrow> slirp4netnsCmd" where
  "apiCmdOf i =
     (let hostIP = HostIP i;
          hostIP = (if hostIP = '''' then ''0.0.0.0'' else hostIP)
      in \<lparr>Execute = ''add_hostfwd'',
          Args = \<lparr>Proto = Protocol i, HostAddr = hostIP, HostPort = PortMapping.HostPort i,
                  GuestAddr = '''', GuestPort = ContainerPort i\<rparr>\<rparr>)"

text \<open>
  The body of the loop once connection \<open>n\<close> is open, with the answers \<open>c\<close> of
  that connection.
\<close>

definition hostfwdRoundTrip ::
  "golib \<Rightarrow> connAnswers \<Rightarrow> string \<Rightarrow> nat \<Rightarrow> PortMapping \<Rightarrow> error option \<times> event list" where
  "hostfwdRoundTrip L c apiSocket n i =
     (case json_Marshal_cmd L (apiCmdOf i) of
        Inl err \<Rightarrow> (Some (Wrapf err ''cannot marshal JSON for slirp4netns'' []), [])
      | Inr data \<Rightarrow>
         (let w = [EvConnWrite n (data @ [CHR 0x0A])] in
          case writeErr c of
            Some err \<Rightarrow>
              (Some (Wrapf err ''cannot write to control socket %s'' [AStr apiSocket]), w)
          | None \<Rightarrow>
             (case closeWriteErr c of
                Some err \<Rightarrow>
                  (Some (Wrapf err ''cannot shutdown the socket %s'' [AStr apiSocket]),
                   w @ [EvConnCloseWrite n])
              | None \<Rightarrow>
                 (let evs = w @ [EvConnCloseWrite n, EvConnRead n] in
                  case readAns c of
                    Inl err \<Rightarrow>
                      (Some (Wrapf err ''cannot read from control socket %s'' [AStr apiSocket]),
                       evs)
                  | Inr buf \<Rightarrow>
                     (case json_Unmarshal L (take 2048 buf) of
                        Inl err \<Rightarrow>
                          (Some (Wrapf err ''error parsing error status from slirp4netns'' []),
                           evs)
                      | Inr y \<Rightarrow>
                         (case y ''error'' of
                            Some e \<Rightarrow>
                              (Some (Errorf
                                 ''error from slirp4netns while setting up port redirection: %v''
                                 [AJson e]), evs)
                          | None \<Rightarrow> (None, evs)))))))"

text \<open>
  The loop over the mappings, \<open>n\<close> counting them. It returns the error (if any), the
  trace, and the connections opened, whose \<^verbatim>\<open>Close\<close> is deferred to the return of
  the function.
\<close>

fun hostfwdLoop ::
  "golib \<Rightarrow> (nat \<Rightarrow> connAnswers) \<Rightarrow> string \<Rightarrow> nat \<Rightarrow> PortMapping list
     \<Rightarrow> error option \<times> event list \<times> nat list" where
  "hostfwdLoop L conn apiSocket n [] = (None, [], [])"
| "hostfwdLoop L conn apiSocket n (i # rest) =
     (case dialErr (conn n) of
        Some err \<Rightarrow>
          (Some (Wrapf err ''cannot open connection to %s'' [AStr apiSocket]),
           [EvDial apiSocket n], [])
      | None \<Rightarrow>
         (case hostfwdRoundTrip L (conn n) apiSocket n i of
            (Some err, evs) \<Rightarrow> (Some err, EvDial apiSocket n # evs, [n])
          | (None, evs) \<Rightarrow>
             (case hostfwdLoop L conn apiSocket (Suc n) rest of
                (r, evs', opened) \<Rightarrow> (r, EvDial apiSocket n # evs @ evs', n # opened))))"

text \<open>The deferred \<^verbatim>\<open>conn.Close\<close> of the connections, last opened first.\<close>

fun closeConns :: "(nat \<Rightarrow> connAnswers) \<Rightarrow> nat list \<Rightarrow> event list" where
  "closeConns conn [] = []"
| "closeConns conn (n # ns) =
     (case closeErr (conn n) of
        Some err \<Rightarrow> [EvConnClose n, LogErrorf ''unable to close connection: %q'' [AErr err]]
      | None \<Rightarrow> [EvConnClose n]) @ closeConns conn ns"

text \<open>
  \<open>waitForFile\<close> is the answer of \<^verbatim>\<open>WaitForFile(apiSocket, chWait, pidWaitTimeout)\<close>,
  a function of libpod outside this file; the goroutine that polls the helper and feeds
  \<open>chWait\<close> is part of that answer.
\<close>

definition setupRootlessPortMappingViaSlirp ::
  "golib \<Rightarrow> (string \<Rightarrow> error option) \<Rightarrow> (nat \<Rightarrow> connAnswers) \<Rightarrow> PortMapping list \<Rightarrow> string
     \<Rightarrow> error option \<times> event list" where
  "setupRootlessPortMappingViaSlirp L waitForFile conn mappings apiSocket =
     (case waitForFile apiSocket of
        Some err \<Rightarrow>
          (Some (Wrapf err ''waiting for slirp4nets to create the api socket file %s''
                   [AStr apiSocket]),
           [EvWaitForFile apiSocket, EvCloseChan])
      | None \<Rightarrow>
         (case hostfwdLoop L conn apiSocket 0 mappings of
            (Some err, evs, opened) \<Rightarrow>
              (Some err,
               EvWaitForFile apiSocket # evs @ closeConns conn (rev opened) @ [EvCloseChan])
          | (None, evs, opened) \<Rightarrow>
              (None,
               EvWaitForFile apiSocket # evs
                 @ [LogDebugf ''slirp4netns port-forwarding setup via add_hostfwd is ready'' []]
                 @ closeConns conn (rev opened) @ [EvCloseChan])))"

subsection \<open>The environment and the container\<close>

text \<open>
  The answers of the host to the calls the code makes. Pipes are named by the variables
  that receive them, processes by their pid, log files by the pid of the child that
  writes them. \<open>cmd_Start\<close> takes the path and \<^verbatim>\<open>cmd.Args\<close> and gives the pid of
  the child.
\<close>

record world =
  exec_LookPath :: "string \<Rightarrow> error + string"
  net_InterfaceByName :: "string \<Rightarrow> error option"
  exec_CombinedOutput :: "string \<Rightarrow> string list \<Rightarrow> string \<times> error option"
  os_Pipe :: "string \<Rightarrow> error option"
  os_Create :: "string \<Rightarrow> error option"
  os_Remove :: "string \<Rightarrow> error option"
  os_Getpid :: int
  cmd_Start :: "string \<Rightarrow> string list \<Rightarrow> error + int"
  proc_Release :: "int \<Rightarrow> error option"
  syncAnswers :: "int \<Rightarrow> syncStep list"
  logFileOf :: "int \<Rightarrow> logFile"
  stdoutOf :: "int \<Rightarrow> string"
  WaitForFile :: "string \<Rightarrow> error option"
  connAnswersOf :: "nat \<Rightarrow> connAnswers"

text \<open>
  The container, as far as the code reads it: \<^verbatim>\<open>ctr.config\<close> (ID, port mappings,
  network options, PostConfigureNetNS) and \<^verbatim>\<open>ctr.state\<close> (the path of the network
  namespace, the pid, the network status: for each result, the addresses of its
  \<^verbatim>\<open>IPs\<close>). \<open>rootlessPortSyncR_set\<close> says whether \<^verbatim>\<open>ctr.rootlessPortSyncR\<close> is
  non-nil on entry.
\<close>

record Container =
  ID :: string
  PortMappings :: "PortMapping list"
  NetworkOptions :: "(string \<rightharpoonup> string list) option"
  PostConfigureNetNS :: bool
  NetNS_Path :: string
  state_PID :: int
  NetworkStatus :: "IP list list"
  rootlessPortSyncR_set :: bool

text \<open>
  Sequencing: events before a computation, and deferred calls at its return (none when
  the computation has not returned).
\<close>

definition after :: "event list \<Rightarrow> 'a \<times> event list \<Rightarrow> 'a \<times> event list" where
  "after pre p = (fst p, pre @ snd p)"

definition deferred ::
  "event list \<Rightarrow> 'a option \<times> event list \<Rightarrow> 'a option \<times> event list" where
  "deferred ds p =
     (case p of
        (None, evs) \<Rightarrow> (None, evs)
      | (Some r, evs) \<Rightarrow> (Some r, evs @ ds))"

text \<open>The deferred \<^verbatim>\<open>cmd.Process.Release()\<close>, whose error is only logged.\<close>

definition releaseEvents :: "world \<Rightarrow> int \<Rightarrow> string \<Rightarrow> event list" where
  "releaseEvents W pid msg =
     (case proc_Release W pid of
        Some err \<Rightarrow> [EvRelease pid, LogErrorf msg [AErr err]]
      | None \<Rightarrow> [EvRelease pid])"

subsection \<open>checkSlirpFlags\<close>

text \<open>\<^verbatim>\<open>strings.Contains\<close>, \<^verbatim>\<open>strings.Join\<close>, \<^verbatim>\<open>strings.TrimSuffix(s, "\n")\<close>\<close>

fun strings_Contains :: "string \<Rightarrow> string \<Rightarrow> bool" where
  "strings_Contains [] sub = (sub = [])"
| "strings_Contains (c # s) sub = (take (length sub) (c # s) = sub \<or> strings_Contains s sub)"

fun strings_Join :: "string list \<Rightarrow> string \<Rightarrow> string" where
  "strings_Join [] sep = []"
| "strings_Join [x] sep = x"
| "strings_Join (x # y # ys) sep = x @ sep @ strings_Join (y # ys) sep"

definition TrimSuffix_newline :: "string \<Rightarrow> string" where
  "TrimSuffix_newline s = (if s \<noteq> [] \<and> last s = CHR 0x0A then butlast s else s)"

definition checkSlirpFlags :: "world \<Rightarrow> string \<Rightarrow> error + slirpFeatures" where
  "checkSlirpFlags W path =
     (case exec_CombinedOutput W path [''--help''] of
        (out, Some err) \<Rightarrow> Inl (Wrapf err ''slirp4netns %q'' [AStr out])
      | (out, None) \<Rightarrow>
          Inr \<lparr>HasDisableHostLoopback = strings_Contains out ''--disable-host-loopback'',
               HasMTU = strings_Contains out ''--mtu'',
               HasEnableSandbox = strings_Contains out ''--enable-sandbox'',
               HasEnableSeccomp = strings_Contains out ''--enable-seccomp'',
               HasCIDR = strings_Contains out ''--cidr'',
               HasOutboundAddr = strings_Contains out ''--outbound-addr'',
               HasIPv6 = strings_Contains out ''--enable-ipv6''\<rparr>)"

subsection \<open>setupRootlessPortMappingViaRLK\<close>

text \<open>
  \<^verbatim>\<open>IP.String()\<close>: dotted decimal for an address that \<^verbatim>\<open>To4\<close> accepts; the other
  forms are left to the library.
\<close>

definition uitoa :: "byte \<Rightarrow> string" where
  "uitoa b = dec_nat (unat b)"

definition IP_String :: "golib \<Rightarrow> IP \<Rightarrow> string" where
  "IP_String L ip =
     (if length ip = 0 then ''<nil>''
      else case To4 ip of
             Some p4 \<Rightarrow> uitoa (p4 ! 0) @ ''.'' @ uitoa (p4 ! 1) @ ''.'' @ uitoa (p4 ! 2)
                        @ ''.'' @ uitoa (p4 ! 3)
           | None \<Rightarrow> IP_String_other L ip)"

text \<open>The two loops over the network status: the first address that is an IPv4 one.\<close>

fun scanIPs :: "IP list \<Rightarrow> IP option" where
  "scanIPs [] = None"
| "scanIPs (i # rest) = (case To4 i of Some ipv4 \<Rightarrow> Some ipv4 | None \<Rightarrow> scanIPs rest)"

fun scanNetworkStatus :: "IP list list \<Rightarrow> IP option" where
  "scanNetworkStatus [] = None"
| "scanNetworkStatus (r # rest) =
     (case scanIPs r of Some ipv4 \<Rightarrow> Some ipv4 | None \<Rightarrow> scanNetworkStatus rest)"

text \<open>
  The computation of \<open>childIP\<close>. The last byte of the network address is a byte: the
  addition of 100 wraps around at 256 and does not carry. Indexing an empty address
  panics.
\<close>

definition childIPOf :: "golib \<Rightarrow> pkgconsts \<Rightarrow> string \<Rightarrow> IP list list \<Rightarrow> error + string" where
  "childIPOf L K slirp4CIDR networkStatus =
     (case (if slirp4CIDR \<noteq> '''' then
              (case net_ParseCIDR L slirp4CIDR of
                 Inl err \<Rightarrow> Inl (Wrap err ''failed to parse slirp4netns cidr'')
               | Inr (ip0, ipnet) \<Rightarrow>
                   let ip = IPNet_IP ipnet in
                   if length ip = 0 then Inl (Panic ''index out of range'')
                   else
                     let ip = ip[length ip - 1 := ip ! (length ip - 1) + 100]
                     in Inr (IP_String L ip))
            else Inr (slirp4netnsIP K)) of
        Inl err \<Rightarrow> Inl err
      | Inr childIP \<Rightarrow>
          Inr (case scanNetworkStatus networkStatus of
                 Some ipv4 \<Rightarrow> IP_String L ipv4
               | None \<Rightarrow> childIP))"

text \<open>The function from the start of the child on.\<close>

definition rlkStarted ::
  "world \<Rightarrow> golib \<Rightarrow> Cmd \<Rightarrow> error option option \<times> event list" where
  "rlkStarted W L cmd =
     (case waitForSync L (syncAnswers W (cmd_Pid cmd)) cmd (logFileOf W (cmd_Pid cmd))
             3000000000 of
        (None, evs) \<Rightarrow> (None, evs)
      | (Some (Some err), evs) \<Rightarrow>
          (let stdoutStr = stdoutOf W (cmd_Pid cmd) in
           if stdoutStr \<noteq> ''''
           then (Some (Some (Errorf (''rootlessport '' @ TrimSuffix_newline stdoutStr) [])),
                 evs @ [LogDebug [AErr err]])
           else (Some (Some err), evs))
      | (Some None, evs) \<Rightarrow> (Some None, evs @ [LogDebug [AStr ''rootlessport is ready'']]))"

text \<open>From the computation of \<open>childIP\<close> to the start of the child.\<close>

definition rlkLaunch ::
  "world \<Rightarrow> golib \<Rightarrow> pkgconsts \<Rightarrow> EngineConfig \<Rightarrow> Container \<Rightarrow> string \<Rightarrow> string
     \<Rightarrow> error option option \<times> event list" where
  "rlkLaunch W L K cfg ctr netnsPath slirp4CIDR =
     (case childIPOf L K slirp4CIDR (NetworkStatus ctr) of
        Inl err \<Rightarrow> (Some (Some err), [])
      | Inr childIP \<Rightarrow>
         (case json_Marshal_cfg L
                 \<lparr>Mappings = PortMappings ctr, NetNSPath = netnsPath, ExitFD = 3, ReadyFD = 4,
                  cfg_TmpDir = TmpDir cfg, ChildIP = childIP\<rparr> of
            Inl err \<Rightarrow> (Some (Some err), [])
          | Inr cfgJSON \<Rightarrow>
             (let path = ''/proc/'' @ fmt_d (os_Getpid W) @ ''/exe'';
                  args = [ReexecKey K]
              in deferred
                   (if \<not> PostConfigureNetNS ctr \<or> rootlessPortSyncR_set ctr
                    then [EvCloseQuiet ''rootlessPortSyncR''] else [])
                   (case cmd_Start W path args of
                      Inl err \<Rightarrow>
                        (Some (Some (Wrapf err ''failed to start rootlessport process'' [])),
                         [EvStart path args cfgJSON False])
                    | Inr pid \<Rightarrow>
                        after [EvStart path args cfgJSON False]
                          (deferred
                             (releaseEvents W pid ''unable to release rootlessport process: %q'')
                             (rlkStarted W L \<lparr>cmd_Path = path, cmd_Args = args,
                                              cmd_Pid = pid\<rparr>))))))"

definition setupRootlessPortMappingViaRLK ::
  "world \<Rightarrow> golib \<Rightarrow> pkgconsts \<Rightarrow> EngineConfig \<Rightarrow> Container \<Rightarrow> string \<Rightarrow> string
     \<Rightarrow> error option option \<times> event list" where
  "setupRootlessPortMappingViaRLK W L K cfg ctr netnsPath slirp4CIDR =
     (case os_Pipe W ''rootlessport sync'' of
        Some err \<Rightarrow>
          (Some (Some (Wrapf err ''failed to open pipe'' [])), [EvPipe ''rootlessport sync''])
      | None \<Rightarrow>
         after [EvPipe ''rootlessport sync'']
          (deferred [EvCloseQuiet ''syncW'', EvCloseQuiet ''syncR'']
            (let logPath = filepath_Join L [TmpDir cfg, ''rootlessport-'' @ ID ctr @ ''.log''] in
             case os_Create W logPath of
               Some err \<Rightarrow>
                 (Some (Some (Wrapf err ''failed to open rootlessport log file %s''
                                [AStr logPath])),
                  [EvCreate logPath])
             | None \<Rightarrow>
                after [EvCreate logPath]
                 (deferred [EvCloseFile logPath]
                   (case os_Remove W logPath of
                      Some err \<Rightarrow>
                        (Some (Some (Wrapf err ''delete file %s'' [AStr logPath])),
                         [EvRemove logPath])
                    | None \<Rightarrow>
                       after [EvRemove logPath]
                        (if \<not> PostConfigureNetNS ctr then
                           (case os_Pipe W ''rootlessPortSync'' of
                              Some err \<Rightarrow>
                                (Some (Some (Wrapf err
                                   ''failed to create rootless port sync pipe'' [])),
                                 [EvPipe ''rootlessPortSync''])
                            | None \<Rightarrow>
                                after [EvPipe ''rootlessPortSync'']
                                  (rlkLaunch W L K cfg ctr netnsPath slirp4CIDR))
                         else rlkLaunch W L K cfg ctr netnsPath slirp4CIDR))))))"

subsection \<open>setupSlirp4netns\<close>

text \<open>The function from the start of the helper on: the readiness wait, then the ports.\<close>

definition slirpStarted ::
  "world \<Rightarrow> golib \<Rightarrow> pkgconsts \<Rightarrow> EngineConfig \<Rightarrow> Container \<Rightarrow> slirp4netnsNetworkOptions
     \<Rightarrow> Cmd \<Rightarrow> string \<Rightarrow> string \<Rightarrow> error option option \<times> event list" where
  "slirpStarted W L K cfg ctr netOptions cmd apiSocket netnsPath =
     (let havePortMapping = length (PortMappings ctr) > 0 in
      case waitForSync L (syncAnswers W (cmd_Pid cmd)) cmd (logFileOf W (cmd_Pid cmd))
             1000000000 of
        (None, evs) \<Rightarrow> (None, evs)
      | (Some (Some err), evs) \<Rightarrow> (Some (Some err), evs)
      | (Some None, evs) \<Rightarrow>
          if havePortMapping then
            (if isSlirpHostForward netOptions then
               (case setupRootlessPortMappingViaSlirp L (WaitForFile W) (connAnswersOf W)
                       (PortMappings ctr) apiSocket of
                  (r, evs') \<Rightarrow> (Some r, evs @ evs'))
             else
               after evs
                 (setupRootlessPortMappingViaRLK W L K cfg ctr netnsPath (cidr netOptions)))
          else (Some None, evs))"

text \<open>From the finished argument list to the start of the helper.\<close>

definition slirpLaunch ::
  "world \<Rightarrow> golib \<Rightarrow> pkgconsts \<Rightarrow> EngineConfig \<Rightarrow> Container \<Rightarrow> slirp4netnsNetworkOptions
     \<Rightarrow> slirpFeatures \<Rightarrow> string \<Rightarrow> string list \<Rightarrow> string \<Rightarrow> string \<Rightarrow> string
     \<Rightarrow> error option option \<times> event list" where
  "slirpLaunch W L K cfg ctr netOptions features path cmdArgs apiSocket netnsPath logPath =
     (let args = path # cmdArgs;
          newns = (\<not> noPivotRoot netOptions \<and> HasEnableSandbox features)
      in after [LogDebugf ''slirp4netns command: %s'' [AStr (strings_Join args '' '')]]
          (case os_Create W logPath of
             Some err \<Rightarrow>
               (Some (Some (Wrapf err ''failed to open slirp4netns log file %s''
                              [AStr logPath])),
                [EvCreate logPath])
           | None \<Rightarrow>
              after [EvCreate logPath]
               (deferred [EvCloseFile logPath]
                 (case os_Remove W logPath of
                    Some err \<Rightarrow>
                      (Some (Some (Wrapf err ''delete file %s'' [AStr logPath])),
                       [EvRemove logPath])
                  | None \<Rightarrow>
                     after [EvRemove logPath]
                      (case cmd_Start W path args of
                         Inl err \<Rightarrow>
                           (Some (Some (Wrapf err ''failed to start slirp4netns process'' [])),
                            [EvStart path args '''' newns])
                       | Inr pid \<Rightarrow>
                          after [EvStart path args '''' newns]
                           (deferred
                              (releaseEvents W pid ''unable to release command process: %q'')
                              (slirpStarted W L K cfg ctr netOptions
                                 \<lparr>cmd_Path = path, cmd_Args = args, cmd_Pid = pid\<rparr>
                                 apiSocket netnsPath)))))))"

text \<open>From the open sync pipe to the finished argument list.\<close>

definition slirpConfigure ::
  "world \<Rightarrow> golib \<Rightarrow> pkgconsts \<Rightarrow> EngineConfig \<Rightarrow> Container \<Rightarrow> string
     \<Rightarrow> error option option \<times> event list" where
  "slirpConfigure W L K cfg ctr path =
     (let havePortMapping = length (PortMappings ctr) > 0;
          logPath = filepath_Join L [TmpDir cfg, ''slirp4netns-'' @ ID ctr @ ''.log''];
          ctrNetworkSlipOpts =
            (case NetworkOptions ctr of
               None \<Rightarrow> []
             | Some m \<Rightarrow> (case m ''slirp4netns'' of None \<Rightarrow> [] | Some l \<Rightarrow> l))
      in
      case parseSlirp4netnsNetworkOptions L (net_InterfaceByName W) K cfg ctrNetworkSlipOpts of
        Inl err \<Rightarrow> (Some (Some err), [])
      | Inr netOptions \<Rightarrow>
         after [EvCombinedOutput path [''--help'']]
          (case checkSlirpFlags W path of
             Inl err \<Rightarrow>
               (Some (Some (Wrapf err ''error checking slirp4netns binary %s: %q''
                              [AStr path, AErr err])), [])
           | Inr features \<Rightarrow>
              (case createBasicSlirp4netnsCmdArgs netOptions features of
                 Inl err \<Rightarrow> (Some (Some err), [])
               | Inr cmdArgs \<Rightarrow>
                  (let cmdArgs = cmdArgs @ [''-c'', ''-e'', ''3'', ''-r'', ''4''];
                       hostfwd = (havePortMapping \<and> isSlirpHostForward netOptions);
                       apiSocket = (if hostfwd
                                    then filepath_Join L [TmpDir cfg, ID ctr @ ''.net'']
                                    else '''');
                       cmdArgs = (if hostfwd then cmdArgs @ [''--api-socket'', apiSocket]
                                  else cmdArgs)
                   in
                   if \<not> PostConfigureNetNS ctr then
                     (case os_Pipe W ''rootlessSlirpSync'' of
                        Some err \<Rightarrow>
                          (Some (Some (Wrapf err
                             ''failed to create rootless network sync pipe'' [])),
                           [EvPipe ''rootlessSlirpSync''])
                      | None \<Rightarrow>
                         (let netnsPath = NetNS_Path ctr;
                              cmdArgs = cmdArgs @ [''--netns-type=path'', netnsPath, ''tap0'']
                          in after [EvPipe ''rootlessSlirpSync'']
                               (slirpLaunch W L K cfg ctr netOptions features path cmdArgs
                                  apiSocket netnsPath logPath)))
                   else
                     deferred [EvCloseQuiet ''rootlessSlirpSyncW'',
                               EvCloseQuiet ''rootlessSlirpSyncR'']
                       (let netnsPath = ''/proc/'' @ fmt_d (state_PID ctr) @ ''/ns/net'';
                            cmdArgs = cmdArgs @ [fmt_d (state_PID ctr), ''tap0'']
                        in slirpLaunch W L K cfg ctr netOptions features path cmdArgs
                             apiSocket netnsPath logPath)))))"

text \<open>
  The whole function. Its result is \<open>Some None\<close> for the return of \<^verbatim>\<open>nil\<close>,
  \<open>Some (Some e)\<close> for the return of an error, and \<open>None\<close> when a readiness wait is
  still going on after the observed iterations.
\<close>

definition setupSlirp4netns ::
  "world \<Rightarrow> golib \<Rightarrow> pkgconsts \<Rightarrow> EngineConfig \<Rightarrow> Container
     \<Rightarrow> error option option \<times> event list" where
  "setupSlirp4netns W L K cfg ctr =
     (let path = NetworkCmdPath cfg in
      case (if path = '''' then exec_LookPath W ''slirp4netns'' else Inr path) of
        Inl err \<Rightarrow>
          (Some None,
           [EvLookPath ''slirp4netns'',
            LogErrorf
              (''could not find slirp4netns, the network namespace won'' @ [CHR 0x27]
                 @ ''t be configured: %v'')
              [AErr err]])
      | Inr path \<Rightarrow>
         after (if NetworkCmdPath cfg = '''' then [EvLookPath ''slirp4netns''] else [])
          (case os_Pipe W ''sync'' of
             Some err \<Rightarrow>
               (Some (Some (Wrapf err ''failed to open pipe'' [])), [EvPipe ''sync''])
           | None \<Rightarrow>
              after [EvPipe ''sync'']
               (deferred [EvCloseQuiet ''syncW'', EvCloseQuiet ''syncR'']
                  (slirpConfigure W L K cfg ctr path))))"

section \<open>Notions used in the statements\<close>

subsection \<open>The readiness wait\<close>

text \<open>
  An iteration after which the loop goes on: the deadline was set, the read timed out,
  \<^verbatim>\<open>Wait4\<close> succeeded and did not report the child as exited or signaled.
\<close>

definition stillRunning :: "int \<Rightarrow> syncStep \<Rightarrow> bool" where
  "stillRunning pid st =
     (setDeadlineErr st = None
      \<and> (case readErr st of None \<Rightarrow> False | Some err \<Rightarrow> IsTimeout err)
      \<and> wait4Err st = None
      \<and> (wait4Pid st \<noteq> pid
         \<or> (\<not> Exited (wait4Status st) \<and> \<not> Signaled (wait4Status st))))"

text \<open>The events of \<open>n\<close> such iterations.\<close>

fun pollEvents :: "int \<Rightarrow> int \<Rightarrow> nat \<Rightarrow> event list" where
  "pollEvents timeout pid 0 = []"
| "pollEvents timeout pid (Suc n) =
     [EvSetDeadline timeout, EvReadSync, EvWait4 pid] @ pollEvents timeout pid n"

subsection \<open>The control socket\<close>

text \<open>The JSON object received on a connection, when the exchange went through.\<close>

definition response :: "golib \<Rightarrow> connAnswers \<Rightarrow> (string \<rightharpoonup> json) option" where
  "response L c =
     (case readAns c of
        Inl err \<Rightarrow> None
      | Inr buf \<Rightarrow> (case json_Unmarshal L (take 2048 buf) of Inl err \<Rightarrow> None | Inr y \<Rightarrow> Some y))"

text \<open>
  A connection on which dialling, marshalling, writing, the half-close and reading
  succeed, and whose response is a JSON object.
\<close>

definition exchangeOk :: "golib \<Rightarrow> connAnswers \<Rightarrow> PortMapping \<Rightarrow> bool" where
  "exchangeOk L c i =
     (dialErr c = None
      \<and> (case json_Marshal_cmd L (apiCmdOf i) of Inl err \<Rightarrow> False | Inr data \<Rightarrow> True)
      \<and> writeErr c = None \<and> closeWriteErr c = None
      \<and> response L c \<noteq> None)"

text \<open>The \<^verbatim>\<open>"error"\<close> entry of the response, if it has one.\<close>

definition errorKey :: "golib \<Rightarrow> connAnswers \<Rightarrow> json option" where
  "errorKey L c = (case response L c of None \<Rightarrow> None | Some y \<Rightarrow> y ''error'')"

text \<open>The events of one complete exchange, and of the exchanges for a list of mappings.\<close>

definition exchangeEvents :: "golib \<Rightarrow> string \<Rightarrow> nat \<Rightarrow> PortMapping \<Rightarrow> event list" where
  "exchangeEvents L apiSocket n i =
     (case json_Marshal_cmd L (apiCmdOf i) of
        Inl err \<Rightarrow> [EvDial apiSocket n]
      | Inr data \<Rightarrow>
          [EvDial apiSocket n, EvConnWrite n (data @ [CHR 0x0A]), EvConnCloseWrite n,
           EvConnRead n])"

fun exchangesFrom :: "golib \<Rightarrow> string \<Rightarrow> nat \<Rightarrow> PortMapping list \<Rightarrow> event list" where
  "exchangesFrom L apiSocket n [] = []"
| "exchangesFrom L apiSocket n (i # rest) =
     exchangeEvents L apiSocket n i @ exchangesFrom L apiSocket (Suc n) rest"

subsection \<open>Addresses as numbers\<close>

text \<open>The number an address stands for, most significant byte first.\<close>

definition addrNum :: "IP \<Rightarrow> nat" where
  "addrNum ip = foldl (\<lambda>acc b. 256 * acc + unat b) 0 ip"

section \<open>A sample environment\<close>

text \<open>
  Values for the parameters of the model, for the concrete examples below. The library
  functions are given at the inputs the examples use, with the values the Go standard
  library computes there (\<^verbatim>\<open>ParseIP\<close> gives 16 bytes; \<^verbatim>\<open>ParseCIDR\<close> gives the
  address and the masked network of 4 bytes with its mask), and fail elsewhere.
\<close>

definition sampleConsts :: pkgconsts where
  "sampleConsts =
     \<lparr>slirp4netnsMTU = 65520, slirp4netnsIP = ''10.0.2.100'',
      ReexecKey = ''containers-rootlessport''\<rparr>"

definition v4InV6 :: "IP \<Rightarrow> IP" where
  "v4InV6 p4 = [0, 0, 0, 0, 0, 0, 0, 0, 0, 0, 0xff, 0xff] @ p4"

definition sample_ParseIP :: "string \<Rightarrow> IP option" where
  "sample_ParseIP s =
     (if s = ''::1'' then Some [0, 0, 0, 0, 0, 0, 0, 0, 0, 0, 0, 0, 0, 0, 0, 1]
      else if s = ''fd00::2'' then Some [0xfd, 0, 0, 0, 0, 0, 0, 0, 0, 0, 0, 0, 0, 0, 0, 2]
      else if s = ''10.0.2.15'' then Some (v4InV6 [10, 0, 2, 15])
      else None)"

definition sample_ParseCIDR :: "string \<Rightarrow> error + (IP \<times> IPNet)" where
  "sample_ParseCIDR s =
     (if s = ''10.0.2.0/24''
      then Inr (v4InV6 [10, 0, 2, 0],
                \<lparr>IPNet_IP = [10, 0, 2, 0], IPNet_Mask = [255, 255, 255, 0]\<rparr>)
      else if s = ''10.0.0.192/26''
      then Inr (v4InV6 [10, 0, 0, 192],
                \<lparr>IPNet_IP = [10, 0, 0, 192], IPNet_Mask = [255, 255, 255, 192]\<rparr>)
      else Inl (OSError (''invalid CIDR address: '' @ s) False))"

definition sample_Atoi :: "string \<Rightarrow> int \<times> error option" where
  "sample_Atoi s =
     (if s = ''1500'' then (1500, None)
      else if s = ''67'' then (67, None)
      else (0, Some (OSError ''invalid syntax'' False)))"

text \<open>
  \<^verbatim>\<open>json.Marshal\<close> of a command, for strings that need no escaping; the \<^verbatim>\<open>proto\<close>
  field has \<^verbatim>\<open>omitempty\<close>.
\<close>

definition jstr :: "string \<Rightarrow> string" where
  "jstr s = [CHR 0x22] @ s @ [CHR 0x22]"

definition sample_Marshal_cmd :: "slirp4netnsCmd \<Rightarrow> error + string" where
  "sample_Marshal_cmd c =
     (let a = Args c in
      Inr (''{'' @ jstr ''execute'' @ '':'' @ jstr (Execute c) @ '','' @ jstr ''arguments''
           @ '':{''
           @ (if Proto a = '''' then '''' else jstr ''proto'' @ '':'' @ jstr (Proto a) @ '','')
           @ jstr ''host_addr'' @ '':'' @ jstr (HostAddr a) @ '',''
           @ jstr ''host_port'' @ '':'' @ fmt_d (sint (slirp4netnsCmdArg.HostPort a)) @ '',''
           @ jstr ''guest_addr'' @ '':'' @ jstr (GuestAddr a) @ '',''
           @ jstr ''guest_port'' @ '':'' @ fmt_d (sint (GuestPort a)) @ ''}}''))"

text \<open>Two responses of the helper and their parsed form.\<close>

definition respEmpty :: string where
  "respEmpty = ''{}''"

definition respBadPort :: string where
  "respBadPort = ''{'' @ jstr ''error'' @ '':'' @ jstr ''bad port'' @ ''}''"

definition sample_Unmarshal :: "string \<Rightarrow> error + (string \<rightharpoonup> json)" where
  "sample_Unmarshal s =
     (if s = respEmpty then Inr Map.empty
      else if s = respBadPort then Inr [''error'' \<mapsto> JStr ''bad port'']
      else Inl (OSError ''unexpected end of JSON input'' False))"

definition sampleLib :: golib where
  "sampleLib =
     \<lparr>net_ParseIP = sample_ParseIP, net_ParseCIDR = sample_ParseCIDR,
      strconv_Atoi = sample_Atoi, IP_String_other = (\<lambda>ip. ''?''),
      filepath_Base = (\<lambda>p. p), filepath_Join = (\<lambda>ps. strings_Join ps ''/''),
      json_Marshal_cmd = sample_Marshal_cmd,
      json_Marshal_cfg = (\<lambda>c. Inr (ChildIP c)),
      json_Unmarshal = sample_Unmarshal\<rparr>"

text \<open>A host without any network interface of the names asked for.\<close>

definition noInterface :: "string \<Rightarrow> error option" where
  "noInterface name = Some (OSError ''no such network interface'' False)"

text \<open>Options, feature sets and configurations of the examples.\<close>

definition sampleConfig :: EngineConfig where
  "sampleConfig =
     \<lparr>NetworkCmdPath = '''', NetworkCmdOptions = [], NoPivotRoot = False,
      TmpDir = ''/run/user/1000/libpod/tmp''\<rparr>"


definition allFeatures :: slirpFeatures where
  "allFeatures =
     \<lparr>HasDisableHostLoopback = True, HasMTU = True, HasEnableSandbox = True,
      HasEnableSeccomp = True, HasCIDR = True, HasOutboundAddr = True, HasIPv6 = True\<rparr>"

text \<open>
  Iterations of the readiness wait: a timeout with the child still running, a read that
  succeeds, a read at end of file, a timeout after which the child is found exited with
  status 1 or killed by signal 9, and a deadline that cannot be set.
\<close>

definition timeoutErr :: error where
  "timeoutErr = OSError ''i/o timeout'' True"

definition stepPolling :: syncStep where
  "stepPolling =
     \<lparr>setDeadlineErr = None, readErr = Some timeoutErr, wait4Pid = 0, wait4Status = 0,
      wait4Err = None\<rparr>"

definition stepReady :: syncStep where
  "stepReady =
     \<lparr>setDeadlineErr = None, readErr = None, wait4Pid = 0, wait4Status = 0,
      wait4Err = None\<rparr>"


definition stepExited :: syncStep where
  "stepExited =
     \<lparr>setDeadlineErr = None, readErr = Some timeoutErr, wait4Pid = 4242, wait4Status = 0x100,
      wait4Err = None\<rparr>"

definition stepSignaled :: syncStep where
  "stepSignaled =
     \<lparr>setDeadlineErr = None, readErr = Some timeoutErr, wait4Pid = 4242, wait4Status = 9,
      wait4Err = None\<rparr>"

definition stepNoDeadline :: syncStep where
  "stepNoDeadline =
     \<lparr>setDeadlineErr = Some (OSError ''file type does not support deadline'' False),
      readErr = Some timeoutErr, wait4Pid = 0, wait4Status = 0, wait4Err = None\<rparr>"

definition sampleCmd :: Cmd where
  "sampleCmd =
     \<lparr>cmd_Path = ''/usr/bin/slirp4netns'', cmd_Args = [''slirp4netns'', ''-c'', ''tap0''],
      cmd_Pid = 4242\<rparr>"

definition sampleLog :: logFile where
  "sampleLog =
     \<lparr>logBytes = ''cannot open /dev/net/tun'', logOffset = 24, seekErr = None,
      readAllErr = None\<rparr>"

text \<open>Three port mappings; the helper accepts the first and rejects the second.\<close>

definition sampleMappings :: "PortMapping list" where
  "sampleMappings =
     [\<lparr>HostIP = '''', Protocol = ''tcp'', HostPort = 8080, ContainerPort = 80\<rparr>,
      \<lparr>HostIP = ''127.0.0.1'', Protocol = ''udp'', HostPort = 5353, ContainerPort = 53\<rparr>,
      \<lparr>HostIP = '''', Protocol = ''tcp'', HostPort = 8443, ContainerPort = 443\<rparr>]"

definition connAccepting :: connAnswers where
  "connAccepting =
     \<lparr>dialErr = None, writeErr = None, closeWriteErr = None, readAns = Inr respEmpty,
      closeErr = None\<rparr>"

definition connRejecting :: connAnswers where
  "connRejecting =
     \<lparr>dialErr = None, writeErr = None, closeWriteErr = None, readAns = Inr respBadPort,
      closeErr = None\<rparr>"

definition secondRejected :: "nat \<Rightarrow> connAnswers" where
  "secondRejected n = (if n = 1 then connRejecting else connAccepting)"

text \<open>A host on which \<^verbatim>\<open>slirp4netns\<close> is not installed, and a container.\<close>

definition sampleWorld :: world where
  "sampleWorld =
     \<lparr>exec_LookPath = (\<lambda>name. Inl (OSError ''executable file not found in $PATH'' False)),
      net_InterfaceByName = noInterface,
      exec_CombinedOutput = (\<lambda>path args. ('''', None)),
      os_Pipe = (\<lambda>name. None), os_Create = (\<lambda>path. None), os_Remove = (\<lambda>path. None),
      os_Getpid = 1000,
      cmd_Start = (\<lambda>path args. Inr 4242), proc_Release = (\<lambda>pid. None),
      syncAnswers = (\<lambda>pid. [stepReady]), logFileOf = (\<lambda>pid. sampleLog),
      stdoutOf = (\<lambda>pid. ''''), WaitForFile = (\<lambda>path. None),
      connAnswersOf = secondRejected\<rparr>"

definition sampleContainer :: Container where
  "sampleContainer =
     \<lparr>ID = ''c0ffee'', PortMappings = sampleMappings, NetworkOptions = None,
      PostConfigureNetNS = False, NetNS_Path = ''/run/user/1000/netns/cni-1'',
      state_PID = 0, NetworkStatus = [], rootlessPortSyncR_set = False\<rparr>"

section \<open>Properties of the option parser\<close>

lemma SplitN2_no_sep: "c \<notin> set s \<Longrightarrow> SplitN2 c s = [s]"
  by (simp add: SplitN2_def)

lemma takeWhile_before_sep: "c \<notin> set k \<Longrightarrow> takeWhile (\<lambda>x. x \<noteq> c) (k @ c # v) = k"
  by (induction k) auto

lemma dropWhile_before_sep: "c \<notin> set k \<Longrightarrow> dropWhile (\<lambda>x. x \<noteq> c) (k @ c # v) = c # v"
  by (induction k) auto

lemma SplitN2_first_sep: "c \<notin> set k \<Longrightarrow> SplitN2 c (k @ c # v) = [k, v]"
  by (simp add: SplitN2_def takeWhile_before_sep dropWhile_before_sep)

lemma parseOption_no_equals:
  "CHR ''='' \<notin> set raw \<Longrightarrow>
     parseOption L ifn opts raw = Inl (Errorf ''unknown option for slirp4netns: %q'' [AStr raw])"
  by (simp add: parseOption_def SplitN2_no_sep)

lemma parseOption_key_value:
  "CHR ''='' \<notin> set k \<Longrightarrow>
     parseOption L ifn opts (k @ CHR ''='' # v) = switchOption L ifn opts (k @ CHR ''='' # v) k v"
  by (simp add: parseOption_def SplitN2_first_sep)

lemma parseOptions_append:
  "parseOptions L ifn opts (xs @ ys) =
     (case parseOptions L ifn opts xs of
        Inl e \<Rightarrow> Inl e
      | Inr opts' \<Rightarrow> parseOptions L ifn opts' ys)"
  by (induction xs arbitrary: opts) (auto split: sum.splits)

lemma parse_append:
  "parseSlirp4netnsNetworkOptions L ifn K cfg (xs @ ys) =
     (case parseSlirp4netnsNetworkOptions L ifn K cfg xs of
        Inl e \<Rightarrow> Inl e
      | Inr opts' \<Rightarrow> parseOptions L ifn opts' ys)"
  by (simp add: parseSlirp4netnsNetworkOptions_def parseOptions_append flip: append_assoc)

lemma parseOption_enable_ipv6:
  "parseOption L ifn opts ''enable_ipv6=false'' = Inr (opts\<lparr>enableIPv6 := False\<rparr>)"
  "parseOption L ifn opts ''enable_ipv6=true'' = Inr (opts\<lparr>enableIPv6 := True\<rparr>)"
  using parseOption_key_value[of "''enable_ipv6''" L ifn opts "''false''"]
        parseOption_key_value[of "''enable_ipv6''" L ifn opts "''true''"]
  by (simp_all add: switchOption_def)

lemma parseOption_outbound_addr6_literal:
  assumes "net_ParseIP L A = Some ip" "To4 ip = None"
  shows "parseOption L ifn opts (''outbound_addr6='' @ A) = Inr (opts\<lparr>outboundAddr6 := A\<rparr>)"
  using parseOption_key_value[of "''outbound_addr6''" L ifn opts A] assms
  by (simp add: switchOption_def)

lemma parseOption_host_independent:
  "parseOption L if1 opts raw = Inr a \<Longrightarrow> parseOption L if2 opts raw = Inr b \<Longrightarrow> a = b"
  by (auto simp: parseOption_def switchOption_def Let_def
      split: if_splits sum.splits prod.splits option.splits)

lemma parseOptions_host_independent:
  "parseOptions L if1 opts l = Inr a \<Longrightarrow> parseOptions L if2 opts l = Inr b \<Longrightarrow> a = b"
proof (induction l arbitrary: opts)
  case Nil
  then show ?case by simp
next
  case (Cons raw rest)
  from Cons.prems obtain o1 o2 where
    s1: "parseOption L if1 opts raw = Inr o1" and r1: "parseOptions L if1 o1 rest = Inr a" and
    s2: "parseOption L if2 opts raw = Inr o2" and r2: "parseOptions L if2 o2 rest = Inr b"
    by (auto split: sum.splits)
  from s1 s2 have "o1 = o2" by (rule parseOption_host_independent)
  with r1 r2 show ?case using Cons.IH by blast
qed

lemma fmt_d_65520: "fmt_d 65520 = ''65520''"
  by (simp add: fmt_d_def digit_char_def)

text \<open>
  C10. The parser splits a raw option at its first \<^verbatim>\<open>=\<close> only. An option without any
  \<^verbatim>\<open>=\<close>, reached after options that were accepted, ends the parse with the error
  "unknown option", whatever the string is (the name of a recognised key included). For
  an option \<open>k=v\<close> whose key \<open>k\<close> has no \<^verbatim>\<open>=\<close>, the switch receives \<open>k\<close> and, as the
  value, all of \<open>v\<close>, further \<^verbatim>\<open>=\<close> characters included.
\<close>

theorem parse_splits_at_first_equals:
  "(CHR ''='' \<notin> set raw \<and> parseSlirp4netnsNetworkOptions L ifn K cfg pre = Inr opts'
      \<longrightarrow> parseSlirp4netnsNetworkOptions L ifn K cfg (pre @ raw # post)
            = Inl (Errorf ''unknown option for slirp4netns: %q'' [AStr raw]))
   \<and> (CHR ''='' \<notin> set k
      \<longrightarrow> parseOption L ifn opts (k @ CHR ''='' # v)
            = switchOption L ifn opts (k @ CHR ''='' # v) k v)"
proof (intro conjI impI)
  assume h: "CHR ''='' \<notin> set raw
      \<and> parseSlirp4netnsNetworkOptions L ifn K cfg pre = Inr opts'"
  then have "parseSlirp4netnsNetworkOptions L ifn K cfg (pre @ raw # post)
      = parseOptions L ifn opts' (raw # post)"
    by (simp add: parse_append)
  also have "\<dots> = Inl (Errorf ''unknown option for slirp4netns: %q'' [AStr raw])"
    using h by (simp add: parseOption_no_equals)
  finally show "parseSlirp4netnsNetworkOptions L ifn K cfg (pre @ raw # post)
      = Inl (Errorf ''unknown option for slirp4netns: %q'' [AStr raw])" .
next
  assume "CHR ''='' \<notin> set k"
  then show "parseOption L ifn opts (k @ CHR ''='' # v)
      = switchOption L ifn opts (k @ CHR ''='' # v) k v"
    by (rule parseOption_key_value)
qed

theorem parse_splits_at_first_equals_witness:
  "parseSlirp4netnsNetworkOptions sampleLib noInterface sampleConsts sampleConfig
     ([''enable_ipv6=true''] @ ''mtu'' # [''cidr=10.0.2.0/24''])
     = Inl (Errorf ''unknown option for slirp4netns: %q'' [AStr ''mtu''])
   \<and> parseOption sampleLib noInterface (defaultOptions sampleConsts sampleConfig)
       (''port_handler'' @ CHR ''='' # ''rootlesskit=x'')
     = Inl (Errorf ''unknown port_handler for slirp4netns: %q'' [AStr ''rootlesskit=x''])"
proof -
  have pre: "parseSlirp4netnsNetworkOptions sampleLib noInterface sampleConsts sampleConfig
      [''enable_ipv6=true''] = Inr ((defaultOptions sampleConsts sampleConfig)\<lparr>enableIPv6 := True\<rparr>)"
    by (simp add: parseSlirp4netnsNetworkOptions_def sampleConfig_def parseOption_enable_ipv6)
  have noeq: "CHR ''='' \<notin> set ''mtu''" "CHR ''='' \<notin> set ''port_handler''"
    by simp_all
  show ?thesis
    using parse_splits_at_first_equals[of "''mtu''" sampleLib noInterface sampleConsts sampleConfig
        "[''enable_ipv6=true'']" "(defaultOptions sampleConsts sampleConfig)\<lparr>enableIPv6 := True\<rparr>"
        "[''cidr=10.0.2.0/24'']" "''port_handler''"
        "defaultOptions sampleConsts sampleConfig" "''rootlesskit=x''"]
      pre noeq
    by (simp add: switchOption_def)
qed

text \<open>
  C9. For the same library, the same defaults and the same option list, two runs of the
  parser that both accept the list give the same options record, whatever the network
  interfaces of the host are at each run: the host decides only whether an interface
  name is accepted, never the value stored.
\<close>

theorem parse_same_options_on_every_run:
  "parseSlirp4netnsNetworkOptions L if1 K cfg l = Inr o1
   \<Longrightarrow> parseSlirp4netnsNetworkOptions L if2 K cfg l = Inr o2 \<Longrightarrow> o1 = o2"
  unfolding parseSlirp4netnsNetworkOptions_def Let_def
  by (rule parseOptions_host_independent)

theorem parse_same_options_on_every_run_witness:
  "parseSlirp4netnsNetworkOptions sampleLib noInterface sampleConsts sampleConfig
     [''port_handler=slirp4netns'', ''outbound_addr6=::1'', ''enable_ipv6=true'']
   = Inr \<lparr>cidr = '''', disableHostLoopback = True, enableIPv6 = True,
          isSlirpHostForward = True, noPivotRoot = False, mtu = 65520,
          outboundAddr = '''', outboundAddr6 = ''::1''\<rparr>
   \<and> parseSlirp4netnsNetworkOptions sampleLib (\<lambda>name. None) sampleConsts sampleConfig
     [''port_handler=slirp4netns'', ''outbound_addr6=::1'', ''enable_ipv6=true'']
   = parseSlirp4netnsNetworkOptions sampleLib noInterface sampleConsts sampleConfig
     [''port_handler=slirp4netns'', ''outbound_addr6=::1'', ''enable_ipv6=true'']"
proof -
  let ?l = "[''port_handler=slirp4netns'', ''outbound_addr6=::1'', ''enable_ipv6=true'']"
  let ?r = "\<lparr>cidr = '''', disableHostLoopback = True, enableIPv6 = True,
          isSlirpHostForward = True, noPivotRoot = False, mtu = 65520,
          outboundAddr = '''', outboundAddr6 = ''::1''\<rparr>"
  have ph: "\<And>ifn opts. parseOption sampleLib ifn opts ''port_handler=slirp4netns''
      = Inr (opts\<lparr>isSlirpHostForward := True\<rparr>)"
    using parseOption_key_value[of "''port_handler''" sampleLib _ _ "''slirp4netns''"]
    by (simp add: switchOption_def)
  have lit: "net_ParseIP sampleLib ''::1'' = Some [0, 0, 0, 0, 0, 0, 0, 0, 0, 0, 0, 0, 0, 0, 0, 1]"
    "To4 [0, 0, 0, 0, 0, 0, 0, 0, 0, 0, 0, 0, 0, 0, 0, 1] = None"
    by (simp_all add: sampleLib_def sample_ParseIP_def To4_def)
  have o6: "\<And>ifn opts. parseOption sampleLib ifn opts ''outbound_addr6=::1''
      = Inr (opts\<lparr>outboundAddr6 := ''::1''\<rparr>)"
    using parseOption_outbound_addr6_literal[OF lit, of _ _] by simp
  have a: "parseSlirp4netnsNetworkOptions sampleLib noInterface sampleConsts sampleConfig ?l = Inr ?r"
    by (simp add: parseSlirp4netnsNetworkOptions_def sampleConfig_def sampleConsts_def
        defaultOptions_def ph o6 parseOption_enable_ipv6)
  have b: "\<exists>o2. parseSlirp4netnsNetworkOptions sampleLib (\<lambda>name. None) sampleConsts sampleConfig ?l
      = Inr o2"
    by (simp add: parseSlirp4netnsNetworkOptions_def sampleConfig_def sampleConsts_def
        defaultOptions_def ph o6 parseOption_enable_ipv6)
  then obtain o2 where b': "parseSlirp4netnsNetworkOptions sampleLib (\<lambda>name. None)
      sampleConsts sampleConfig ?l = Inr o2" ..
  from parse_same_options_on_every_run[OF a b'] a b' show ?thesis by simp
qed

section \<open>Properties of the command builder\<close>






lemma basicCmdArgs_ipv6_required:
  "outboundAddr6 options \<noteq> '''' \<Longrightarrow> \<not> enableIPv6 options \<Longrightarrow>
     createBasicSlirp4netnsCmdArgs options allFeatures
       = Inl (Errorf ''enable_ipv6=true is required for outbound_addr6'' [])"
  by (simp add: createBasicSlirp4netnsCmdArgs_def Let_def allFeatures_def)




text \<open>
  C2, as the code has it. The parser does not look at \<^verbatim>\<open>enable_ipv6\<close> when it parses
  \<^verbatim>\<open>outbound_addr6\<close>: for a literal \<open>A\<close> that \<^verbatim>\<open>net.ParseIP\<close> accepts and that is not
  an IPv4 address, the list \<^verbatim>\<open>enable_ipv6=false, outbound_addr6=A\<close> is accepted (after
  any accepted options), and so is \<^verbatim>\<open>outbound_addr6=A, enable_ipv6=true\<close>. The
  requirement is enforced by the command builder, on the final options and whatever the
  order was: with every capability present it fails with "enable_ipv6=true is required
  for outbound_addr6" on the options of the first list.
\<close>

theorem outbound_addr6_checked_by_builder:
  assumes "net_ParseIP L A = Some ip" and "To4 ip = None" and "A \<noteq> ''''"
    and "parseSlirp4netnsNetworkOptions L ifn K cfg pre = Inr opts"
  shows "parseSlirp4netnsNetworkOptions L ifn K cfg
           (pre @ [''enable_ipv6=false'', ''outbound_addr6='' @ A])
         = Inr (opts\<lparr>enableIPv6 := False, outboundAddr6 := A\<rparr>)
       \<and> parseSlirp4netnsNetworkOptions L ifn K cfg
           (pre @ [''outbound_addr6='' @ A, ''enable_ipv6=true''])
         = Inr (opts\<lparr>outboundAddr6 := A, enableIPv6 := True\<rparr>)
       \<and> createBasicSlirp4netnsCmdArgs (opts\<lparr>enableIPv6 := False, outboundAddr6 := A\<rparr>)
           allFeatures
         = Inl (Errorf ''enable_ipv6=true is required for outbound_addr6'' [])"
proof (intro conjI)
  show "parseSlirp4netnsNetworkOptions L ifn K cfg
           (pre @ [''enable_ipv6=false'', ''outbound_addr6='' @ A])
         = Inr (opts\<lparr>enableIPv6 := False, outboundAddr6 := A\<rparr>)"
    using assms(4) parseOption_outbound_addr6_literal[OF assms(1,2)]
    by (simp add: parse_append parseOption_enable_ipv6 del: append.simps)
  show "parseSlirp4netnsNetworkOptions L ifn K cfg
           (pre @ [''outbound_addr6='' @ A, ''enable_ipv6=true''])
         = Inr (opts\<lparr>outboundAddr6 := A, enableIPv6 := True\<rparr>)"
    using assms(4) parseOption_outbound_addr6_literal[OF assms(1,2)]
    by (simp add: parse_append parseOption_enable_ipv6 del: append.simps)
  show "createBasicSlirp4netnsCmdArgs (opts\<lparr>enableIPv6 := False, outboundAddr6 := A\<rparr>)
           allFeatures
         = Inl (Errorf ''enable_ipv6=true is required for outbound_addr6'' [])"
    using assms(3) by (simp add: basicCmdArgs_ipv6_required)
qed

theorem outbound_addr6_checked_by_builder_witness:
  "parseSlirp4netnsNetworkOptions sampleLib noInterface sampleConsts sampleConfig
     ([] @ [''enable_ipv6=false'', ''outbound_addr6='' @ ''fd00::2''])
   = Inr ((defaultOptions sampleConsts sampleConfig)
            \<lparr>enableIPv6 := False, outboundAddr6 := ''fd00::2''\<rparr>)
   \<and> parseSlirp4netnsNetworkOptions sampleLib noInterface sampleConsts sampleConfig
       ([] @ [''outbound_addr6='' @ ''fd00::2'', ''enable_ipv6=true''])
   = Inr ((defaultOptions sampleConsts sampleConfig)
            \<lparr>outboundAddr6 := ''fd00::2'', enableIPv6 := True\<rparr>)
   \<and> createBasicSlirp4netnsCmdArgs
       ((defaultOptions sampleConsts sampleConfig)
          \<lparr>enableIPv6 := False, outboundAddr6 := ''fd00::2''\<rparr>) allFeatures
   = Inl (Errorf ''enable_ipv6=true is required for outbound_addr6'' [])"
proof -
  have a: "net_ParseIP sampleLib ''fd00::2''
      = Some [0xfd, 0, 0, 0, 0, 0, 0, 0, 0, 0, 0, 0, 0, 0, 0, 2]"
    by (simp add: sampleLib_def sample_ParseIP_def)
  have b: "To4 [0xfd, 0, 0, 0, 0, 0, 0, 0, 0, 0, 0, 0, 0, 0, 0, 2] = None"
    by (simp add: To4_def)
  have c: "''fd00::2'' \<noteq> ''''" by simp
  have d: "parseSlirp4netnsNetworkOptions sampleLib noInterface sampleConsts sampleConfig []
      = Inr (defaultOptions sampleConsts sampleConfig)"
    by (simp add: parseSlirp4netnsNetworkOptions_def sampleConfig_def)
  from outbound_addr6_checked_by_builder[OF a b c d] show ?thesis .
qed

theorem parse_ipv6_false_then_outbound_addr6_counterexample:
  "parseSlirp4netnsNetworkOptions sampleLib noInterface sampleConsts sampleConfig
     [''enable_ipv6=false'', ''outbound_addr6=::1'']
   = Inr \<lparr>cidr = '''', disableHostLoopback = True, enableIPv6 = False,
          isSlirpHostForward = False, noPivotRoot = False, mtu = 65520,
          outboundAddr = '''', outboundAddr6 = ''::1''\<rparr>"
proof -
  have lit: "net_ParseIP sampleLib ''::1'' = Some [0, 0, 0, 0, 0, 0, 0, 0, 0, 0, 0, 0, 0, 0, 0, 1]"
    "To4 [0, 0, 0, 0, 0, 0, 0, 0, 0, 0, 0, 0, 0, 0, 0, 1] = None"
    by (simp_all add: sampleLib_def sample_ParseIP_def To4_def)
  have o6: "\<And>opts. parseOption sampleLib noInterface opts ''outbound_addr6=::1''
      = Inr (opts\<lparr>outboundAddr6 := ''::1''\<rparr>)"
    using parseOption_outbound_addr6_literal[OF lit, of _ _] by simp
  show ?thesis
    by (simp add: parseSlirp4netnsNetworkOptions_def sampleConfig_def sampleConsts_def
        defaultOptions_def o6 parseOption_enable_ipv6)
qed

section \<open>Properties of the child address\<close>

lemma childIPOf_custom_cidr:
  assumes "slirp4CIDR \<noteq> ''''" and "net_ParseCIDR L slirp4CIDR = Inr (ip0, ipnet)"
    and "IPNet_IP ipnet = [a, b, c, d]" and "scanNetworkStatus networkStatus = None"
  shows "childIPOf L K slirp4CIDR networkStatus
         = Inr (uitoa a @ ''.'' @ uitoa b @ ''.'' @ uitoa c @ ''.'' @ uitoa (d + 100))"
  using assms by (simp add: childIPOf_def IP_String_def To4_def Let_def)

lemma last_byte_no_wrap: "unat (d :: byte) \<le> 155 \<Longrightarrow> unat (d + 100) = unat d + 100"
  by (simp add: unat_word_ariths)

lemma last_byte_wraps: "155 < unat (d :: byte) \<Longrightarrow> unat (d + 100) + 156 = unat d"
proof -
  assume h: "155 < unat d"
  have "unat d < 256" using unsigned_less[of d] by simp
  with h have "(unat d + 100) mod 256 = unat d + 100 - 256" 
    by (simp add: mod_if)
  then show ?thesis using h by (simp add: unat_word_ariths)
qed

lemma addrNum_4: "addrNum [a, b, c, d] = 256 * (256 * (256 * unat a + unat b) + unat c) + unat d"
  by (simp add: addrNum_def)

lemma childIPOf_hundredth:
  assumes "slirp4CIDR \<noteq> ''''" and "net_ParseCIDR L slirp4CIDR = Inr (ip0, ipnet)"
    and "IPNet_IP ipnet = [a, b, c, d]" and "scanNetworkStatus networkStatus = None"
    and "unat d \<le> 155"
  shows "\<exists>d'. childIPOf L K slirp4CIDR networkStatus
            = Inr (uitoa a @ ''.'' @ uitoa b @ ''.'' @ uitoa c @ ''.'' @ uitoa d')
          \<and> addrNum [a, b, c, d'] = addrNum [a, b, c, d] + 100"
  using childIPOf_custom_cidr[OF assms(1-4)] last_byte_no_wrap[OF assms(5)]
  by (auto simp: addrNum_4)

lemma childIPOf_wraps:
  assumes "slirp4CIDR \<noteq> ''''" and "net_ParseCIDR L slirp4CIDR = Inr (ip0, ipnet)"
    and "IPNet_IP ipnet = [a, b, c, d]" and "scanNetworkStatus networkStatus = None"
    and "155 < unat d"
  shows "\<exists>d'. childIPOf L K slirp4CIDR networkStatus
            = Inr (uitoa a @ ''.'' @ uitoa b @ ''.'' @ uitoa c @ ''.'' @ uitoa d')
          \<and> addrNum [a, b, c, d'] + 156 = addrNum [a, b, c, d]"
  using childIPOf_custom_cidr[OF assms(1-4)] last_byte_wraps[OF assms(5)]
  by (auto simp: addrNum_4)

lemma childIP_10_0_2_0_24:
  "childIPOf sampleLib sampleConsts ''10.0.2.0/24'' [] = Inr ''10.0.2.100''"
  by (simp add: childIPOf_def sampleLib_def sample_ParseCIDR_def IP_String_def To4_def Let_def
      uitoa_def digit_char_def)



section \<open>Properties of the readiness wait\<close>

lemma stillRunning_step:
  "stillRunning pid st \<Longrightarrow>
     waitLoop prog pid lf t (st # rest) =
       (fst (waitLoop prog pid lf t rest),
        [EvSetDeadline t, EvReadSync, EvWait4 pid] @ snd (waitLoop prog pid lf t rest))"
  by (auto simp: stillRunning_def split: option.splits prod.splits)

lemma waitLoop_polling:
  "\<forall>s \<in> set pre. stillRunning pid s \<Longrightarrow>
     waitLoop prog pid lf t (pre @ rest) =
       (fst (waitLoop prog pid lf t rest),
        pollEvents t pid (length pre) @ snd (waitLoop prog pid lf t rest))"
proof (induction pre)
  case Nil
  then show ?case by simp
next
  case (Cons st pre)
  then have "stillRunning pid st" by simp
  then show ?case using Cons by (simp add: stillRunning_step del: waitLoop.simps)
qed

lemma waitLoop_all_polling:
  "\<forall>s \<in> set steps. stillRunning pid s \<Longrightarrow>
     waitLoop prog pid lf t steps = (None, pollEvents t pid (length steps))"
  using waitLoop_polling[of steps pid prog lf t "[]"] by simp

lemma waitLoop_returns_cause:
  "fst (waitLoop prog pid lf t steps) = Some r \<Longrightarrow>
     \<exists>pre st post. steps = pre @ st # post \<and> (\<forall>s \<in> set pre. stillRunning pid s)
        \<and> \<not> stillRunning pid st"
proof (induction steps)
  case Nil
  then show ?case by simp
next
  case (Cons a steps)
  show ?case
  proof (cases "stillRunning pid a")
    case True
    with Cons.prems have "fst (waitLoop prog pid lf t steps) = Some r"
      by (simp add: stillRunning_step del: waitLoop.simps)
    from Cons.IH[OF this] obtain pre st post where
      "steps = pre @ st # post" "\<forall>s \<in> set pre. stillRunning pid s" "\<not> stillRunning pid st"
      by blast
    with True have "a # steps = (a # pre) @ st # post
        \<and> (\<forall>s \<in> set (a # pre). stillRunning pid s) \<and> \<not> stillRunning pid st"
      by simp
    then show ?thesis by blast
  next
    case False
    then have "a # steps = [] @ a # steps \<and> (\<forall>s \<in> set []. stillRunning pid s)
        \<and> \<not> stillRunning pid a"
      by simp
    then show ?thesis by blast
  qed
qed

lemma not_stillRunning_iff:
  "\<not> stillRunning pid st \<longleftrightarrow>
     (setDeadlineErr st \<noteq> None \<or> readErr st = None
      \<or> (\<exists>err. readErr st = Some err \<and> \<not> IsTimeout err)
      \<or> wait4Err st \<noteq> None
      \<or> (wait4Pid st = pid \<and> (Exited (wait4Status st) \<or> Signaled (wait4Status st))))"
  by (auto simp: stillRunning_def split: option.splits)

lemma exited_step:
  "setDeadlineErr st = None \<Longrightarrow> readErr st = Some e \<Longrightarrow> IsTimeout e \<Longrightarrow> wait4Err st = None
   \<Longrightarrow> wait4Pid st = pid \<Longrightarrow> Exited (wait4Status st) \<Longrightarrow> seekErr lf = None
   \<Longrightarrow> readAllErr lf = None
   \<Longrightarrow> waitLoop prog pid lf t (st # post) =
        (Some (Some (Errorf ''%s failed: %q'' [AStr prog, AStr (logBytes lf)])),
         [EvSetDeadline t, EvReadSync, EvWait4 pid, EvSeekLog, EvReadAllLog])"
  by (simp add: exitedBranch_def)

lemma signaled_step:
  "setDeadlineErr st = None \<Longrightarrow> readErr st = Some e \<Longrightarrow> IsTimeout e \<Longrightarrow> wait4Err st = None
   \<Longrightarrow> wait4Pid st = pid \<Longrightarrow> Signaled (wait4Status st)
   \<Longrightarrow> waitLoop prog pid lf t (st # post) =
        (Some (Some (Errorf ''%s killed by signal'' [AStr prog])),
         [EvSetDeadline t, EvReadSync, EvWait4 pid])"
  by (auto simp add: Signaled_def Exited_def)


lemma sample_steps:
  "stillRunning 4242 stepPolling" "\<not> IsTimeout EOF" "IsTimeout timeoutErr"
  "Exited 0x100" "\<not> Signaled 0x100" "Signaled 9" "\<not> Exited 9"
  by (simp_all add: stillRunning_def stepPolling_def timeoutErr_def EOF_def Exited_def
      Signaled_def)

lemma progOf_sampleCmd: "progOf L sampleCmd = ''slirp4netns''"
  by (simp add: progOf_def sampleCmd_def)

lemma pid_sampleCmd: "cmd_Pid sampleCmd = 4242"
  by (simp add: sampleCmd_def)




text \<open>
  C5, as the code has it. While every iteration is a timeout with the child still
  running, the loop sets a new deadline, reads and polls the child again, and has not
  returned after any number of iterations: the wait has no ceiling. When
  \<^verbatim>\<open>waitForSync\<close> returns, the iteration at which it does so, reached through such
  iterations only, is one where the deadline could not be set, or the read succeeded, or
  the read failed with an error other than a timeout, or \<^verbatim>\<open>Wait4\<close> failed, or the
  child was reported as exited or signaled.
\<close>

theorem waitForSync_returns_only_on_exit_causes:
  "((\<forall>s \<in> set steps. stillRunning (cmd_Pid cmd) s)
      \<longrightarrow> waitForSync L steps cmd lf t = (None, pollEvents t (cmd_Pid cmd) (length steps)))
   \<and> (fst (waitForSync L steps cmd lf t) = Some r
      \<longrightarrow> (\<exists>pre st post. steps = pre @ st # post
             \<and> (\<forall>s \<in> set pre. stillRunning (cmd_Pid cmd) s)
             \<and> (setDeadlineErr st \<noteq> None \<or> readErr st = None
                \<or> (\<exists>err. readErr st = Some err \<and> \<not> IsTimeout err)
                \<or> wait4Err st \<noteq> None
                \<or> (wait4Pid st = cmd_Pid cmd
                   \<and> (Exited (wait4Status st) \<or> Signaled (wait4Status st))))))"
proof (intro conjI impI)
  assume "\<forall>s \<in> set steps. stillRunning (cmd_Pid cmd) s"
  then show "waitForSync L steps cmd lf t = (None, pollEvents t (cmd_Pid cmd) (length steps))"
    by (simp add: waitForSync_def waitLoop_all_polling)
next
  assume "fst (waitForSync L steps cmd lf t) = Some r"
  then have "fst (waitLoop (progOf L cmd) (cmd_Pid cmd) lf t steps) = Some r"
    by (simp add: waitForSync_def)
  from waitLoop_returns_cause[OF this] obtain pre st post where
    "steps = pre @ st # post" "\<forall>s \<in> set pre. stillRunning (cmd_Pid cmd) s"
    "\<not> stillRunning (cmd_Pid cmd) st"
    by blast
  then show "\<exists>pre st post. steps = pre @ st # post
             \<and> (\<forall>s \<in> set pre. stillRunning (cmd_Pid cmd) s)
             \<and> (setDeadlineErr st \<noteq> None \<or> readErr st = None
                \<or> (\<exists>err. readErr st = Some err \<and> \<not> IsTimeout err)
                \<or> wait4Err st \<noteq> None
                \<or> (wait4Pid st = cmd_Pid cmd
                   \<and> (Exited (wait4Status st) \<or> Signaled (wait4Status st))))"
    unfolding not_stillRunning_iff by blast
qed

theorem waitForSync_returns_only_on_exit_causes_witness:
  "waitForSync sampleLib [stepPolling, stepPolling, stepPolling] sampleCmd sampleLog 1000000000
   = (None, [EvSetDeadline 1000000000, EvReadSync, EvWait4 4242,
             EvSetDeadline 1000000000, EvReadSync, EvWait4 4242,
             EvSetDeadline 1000000000, EvReadSync, EvWait4 4242])
   \<and> fst (waitForSync sampleLib [stepPolling, stepReady] sampleCmd sampleLog 1000000000)
     = Some None
   \<and> (\<exists>pre st post. [stepPolling, stepReady] = pre @ st # post
         \<and> (\<forall>s \<in> set pre. stillRunning (cmd_Pid sampleCmd) s)
         \<and> (setDeadlineErr st \<noteq> None \<or> readErr st = None
            \<or> (\<exists>err. readErr st = Some err \<and> \<not> IsTimeout err)
            \<or> wait4Err st \<noteq> None
            \<or> (wait4Pid st = cmd_Pid sampleCmd
               \<and> (Exited (wait4Status st) \<or> Signaled (wait4Status st)))))"
proof -
  note pid = pid_sampleCmd
  have ret: "fst (waitForSync sampleLib [stepPolling, stepReady] sampleCmd sampleLog 1000000000)
      = Some None"
    by (simp add: waitForSync_def pid stepPolling_def stepReady_def timeoutErr_def)
  show ?thesis
    using waitForSync_returns_only_on_exit_causes[of "[stepPolling, stepPolling, stepPolling]"
        sampleCmd sampleLib sampleLog 1000000000 None]
      waitForSync_returns_only_on_exit_causes[of "[stepPolling, stepReady]"
        sampleCmd sampleLib sampleLog 1000000000 None]
      ret sample_steps(1)
    by (simp add: pid)
qed

theorem waitForSync_deadline_error_counterexample:
  "wait4Pid stepNoDeadline \<noteq> cmd_Pid sampleCmd
   \<and> waitForSync sampleLib [stepNoDeadline] sampleCmd sampleLog 1000000000
     = (Some (Some (Wrapf (OSError ''file type does not support deadline'' False)
                      ''error setting %s pipe timeout'' [AStr ''slirp4netns''])),
        [EvSetDeadline 1000000000])"
  by (simp add: waitForSync_def progOf_sampleCmd pid_sampleCmd stepNoDeadline_def)

text \<open>
  C7. After any number of timeouts with the child still running, at a timeout where
  \<^verbatim>\<open>Wait4\<close> reports the child: if it exited normally, and the seek and the read of the
  log succeed, \<^verbatim>\<open>waitForSync\<close> seeks the log, reads it, and returns the error
  "<prog> failed" with the whole contents of the log; if it was killed by a signal,
  \<^verbatim>\<open>waitForSync\<close> returns the error "<prog> killed by signal" and leaves the log alone.
\<close>

theorem waitForSync_child_exited_or_killed:
  assumes "\<forall>s \<in> set pre. stillRunning (cmd_Pid cmd) s"
    and "setDeadlineErr st = None" and "readErr st = Some e" and "IsTimeout e"
    and "wait4Err st = None" and "wait4Pid st = cmd_Pid cmd"
  shows "(Exited (wait4Status st) \<and> seekErr lf = None \<and> readAllErr lf = None
          \<longrightarrow> waitForSync L (pre @ st # post) cmd lf t =
               (Some (Some (Errorf ''%s failed: %q'' [AStr (progOf L cmd), AStr (logBytes lf)])),
                pollEvents t (cmd_Pid cmd) (length pre)
                  @ [EvSetDeadline t, EvReadSync, EvWait4 (cmd_Pid cmd), EvSeekLog,
                     EvReadAllLog]))
       \<and> (Signaled (wait4Status st)
          \<longrightarrow> waitForSync L (pre @ st # post) cmd lf t =
               (Some (Some (Errorf ''%s killed by signal'' [AStr (progOf L cmd)])),
                pollEvents t (cmd_Pid cmd) (length pre)
                  @ [EvSetDeadline t, EvReadSync, EvWait4 (cmd_Pid cmd)]))"
proof (intro conjI impI)
  assume h: "Exited (wait4Status st) \<and> seekErr lf = None \<and> readAllErr lf = None"
  have "waitLoop (progOf L cmd) (cmd_Pid cmd) lf t (st # post) =
        (Some (Some (Errorf ''%s failed: %q'' [AStr (progOf L cmd), AStr (logBytes lf)])),
         [EvSetDeadline t, EvReadSync, EvWait4 (cmd_Pid cmd), EvSeekLog, EvReadAllLog])"
    using assms(2-6) h by (intro exited_step) simp_all
  then show "waitForSync L (pre @ st # post) cmd lf t =
               (Some (Some (Errorf ''%s failed: %q'' [AStr (progOf L cmd), AStr (logBytes lf)])),
                pollEvents t (cmd_Pid cmd) (length pre)
                  @ [EvSetDeadline t, EvReadSync, EvWait4 (cmd_Pid cmd), EvSeekLog,
                     EvReadAllLog])"
    using assms(1) by (simp add: waitForSync_def waitLoop_polling del: waitLoop.simps)
next
  assume h: "Signaled (wait4Status st)"
  have "waitLoop (progOf L cmd) (cmd_Pid cmd) lf t (st # post) =
        (Some (Some (Errorf ''%s killed by signal'' [AStr (progOf L cmd)])),
         [EvSetDeadline t, EvReadSync, EvWait4 (cmd_Pid cmd)])"
    using assms(2-6) h by (intro signaled_step) simp_all
  then show "waitForSync L (pre @ st # post) cmd lf t =
               (Some (Some (Errorf ''%s killed by signal'' [AStr (progOf L cmd)])),
                pollEvents t (cmd_Pid cmd) (length pre)
                  @ [EvSetDeadline t, EvReadSync, EvWait4 (cmd_Pid cmd)])"
    using assms(1) by (simp add: waitForSync_def waitLoop_polling del: waitLoop.simps)
qed

theorem waitForSync_child_exited_or_killed_witness:
  "waitForSync sampleLib ([stepPolling] @ stepExited # []) sampleCmd sampleLog 1000000000
   = (Some (Some (Errorf ''%s failed: %q''
                    [AStr ''slirp4netns'', AStr ''cannot open /dev/net/tun''])),
      [EvSetDeadline 1000000000, EvReadSync, EvWait4 4242,
       EvSetDeadline 1000000000, EvReadSync, EvWait4 4242, EvSeekLog, EvReadAllLog])
   \<and> waitForSync sampleLib ([stepPolling] @ stepSignaled # []) sampleCmd sampleLog 1000000000
   = (Some (Some (Errorf ''%s killed by signal'' [AStr ''slirp4netns''])),
      [EvSetDeadline 1000000000, EvReadSync, EvWait4 4242,
       EvSetDeadline 1000000000, EvReadSync, EvWait4 4242])"
proof -
  note pid = pid_sampleCmd
  have pre: "\<forall>s \<in> set [stepPolling]. stillRunning (cmd_Pid sampleCmd) s"
    using sample_steps(1) by (simp add: pid)
  have ex: "setDeadlineErr stepExited = None" "readErr stepExited = Some timeoutErr"
    "wait4Err stepExited = None" "wait4Pid stepExited = cmd_Pid sampleCmd"
    "Exited (wait4Status stepExited)"
    by (simp_all add: stepExited_def pid sample_steps)
  have sg: "setDeadlineErr stepSignaled = None" "readErr stepSignaled = Some timeoutErr"
    "wait4Err stepSignaled = None" "wait4Pid stepSignaled = cmd_Pid sampleCmd"
    "Signaled (wait4Status stepSignaled)"
    by (simp_all add: stepSignaled_def pid sample_steps)
  have lg: "seekErr sampleLog = None" "readAllErr sampleLog = None"
    "logBytes sampleLog = ''cannot open /dev/net/tun''"
    by (simp_all add: sampleLog_def)
  show ?thesis
    using waitForSync_child_exited_or_killed[OF pre ex(1,2) sample_steps(3) ex(3,4),
        of sampleLog sampleLib "[]" 1000000000]
      waitForSync_child_exited_or_killed[OF pre sg(1,2) sample_steps(3) sg(3,4),
        of sampleLog sampleLib "[]" 1000000000]
      ex(5) sg(5) lg
    by (simp add: progOf_sampleCmd pid)
qed

section \<open>Properties of the port registration over the control socket\<close>

lemma roundTrip_ok:
  "exchangeOk L c i \<Longrightarrow>
     hostfwdRoundTrip L c apiSocket n i =
       ((case errorKey L c of
           Some e \<Rightarrow>
             Some (Errorf ''error from slirp4netns while setting up port redirection: %v''
                     [AJson e])
         | None \<Rightarrow> None),
        tl (exchangeEvents L apiSocket n i))"
  by (auto simp: exchangeOk_def hostfwdRoundTrip_def errorKey_def response_def
      exchangeEvents_def split: sum.splits option.splits)

lemma exchangeEvents_hd:
  "exchangeEvents L apiSocket n i = EvDial apiSocket n # tl (exchangeEvents L apiSocket n i)"
  by (simp add: exchangeEvents_def split: sum.splits)

lemma loop_step_accept:
  assumes "exchangeOk L (conn n) i" and "errorKey L (conn n) = None"
  shows "hostfwdLoop L conn apiSocket n (i # rest) =
     (case hostfwdLoop L conn apiSocket (Suc n) rest of
        (r, evs', opened) \<Rightarrow> (r, exchangeEvents L apiSocket n i @ evs', n # opened))"
proof -
  have d: "dialErr (conn n) = None"
    using assms(1) by (simp add: exchangeOk_def)
  have rt: "hostfwdRoundTrip L (conn n) apiSocket n i
      = (None, tl (exchangeEvents L apiSocket n i))"
    using roundTrip_ok[OF assms(1)] assms(2) by simp
  show ?thesis
    using d rt exchangeEvents_hd[of L apiSocket n i] by (simp split: prod.splits)
qed

lemma loop_step_reject:
  assumes "exchangeOk L (conn n) i" and "errorKey L (conn n) = Some e"
  shows "hostfwdLoop L conn apiSocket n (i # rest) =
     (Some (Errorf ''error from slirp4netns while setting up port redirection: %v'' [AJson e]),
      exchangeEvents L apiSocket n i, [n])"
proof -
  have d: "dialErr (conn n) = None"
    using assms(1) by (simp add: exchangeOk_def)
  have rt: "hostfwdRoundTrip L (conn n) apiSocket n i =
      (Some (Errorf ''error from slirp4netns while setting up port redirection: %v'' [AJson e]),
       tl (exchangeEvents L apiSocket n i))"
    using roundTrip_ok[OF assms(1)] assms(2) by simp
  show ?thesis
    using d rt exchangeEvents_hd[of L apiSocket n i] by simp
qed

lemma loop_all_accept:
  "(\<forall>k < length ms. exchangeOk L (conn (n + k)) (ms ! k) \<and> errorKey L (conn (n + k)) = None)
   \<Longrightarrow> hostfwdLoop L conn apiSocket n ms =
        (None, exchangesFrom L apiSocket n ms, [n ..< n + length ms])"
proof (induction ms arbitrary: n)
  case Nil
  then show ?case by simp
next
  case (Cons i rest)
  from Cons.prems have h0: "exchangeOk L (conn n) i" "errorKey L (conn n) = None"
    by force+
  have "\<forall>k < length rest. exchangeOk L (conn (Suc n + k)) (rest ! k)
           \<and> errorKey L (conn (Suc n + k)) = None"
  proof (intro allI impI)
    fix k assume "k < length rest"
    then have "Suc k < length (i # rest)" by simp
    from Cons.prems[rule_format, OF this]
    show "exchangeOk L (conn (Suc n + k)) (rest ! k) \<and> errorKey L (conn (Suc n + k)) = None"
      by simp
  qed
  from Cons.IH[OF this] have ih: "hostfwdLoop L conn apiSocket (Suc n) rest =
        (None, exchangesFrom L apiSocket (Suc n) rest, [Suc n ..< Suc n + length rest])" .
  show ?case
    by (simp add: loop_step_accept[of L conn n i, OF h0] ih upt_rec del: hostfwdLoop.simps)
qed

lemma loop_first_reject:
  "j < length ms \<Longrightarrow> (\<forall>k \<le> j. exchangeOk L (conn (n + k)) (ms ! k))
   \<Longrightarrow> (\<forall>k < j. errorKey L (conn (n + k)) = None) \<Longrightarrow> errorKey L (conn (n + j)) = Some e
   \<Longrightarrow> hostfwdLoop L conn apiSocket n ms =
        (Some (Errorf ''error from slirp4netns while setting up port redirection: %v''
                 [AJson e]),
         exchangesFrom L apiSocket n (take (Suc j) ms), [n ..< n + Suc j])"
proof (induction ms arbitrary: n j)
  case Nil
  then show ?case by simp
next
  case (Cons i rest)
  from Cons.prems(2) have ok0: "exchangeOk L (conn n) i" by force
  show ?case
  proof (cases j)
    case 0
    with Cons.prems have "errorKey L (conn n) = Some e" by simp
    from loop_step_reject[of L conn n i, OF ok0 this] show ?thesis
      using 0 by (simp del: hostfwdLoop.simps)
  next
    case (Suc j')
    with Cons.prems have acc: "errorKey L (conn n) = None" by force
    have a: "j' < length rest" using Cons.prems(1) Suc by simp
    have b: "\<forall>k \<le> j'. exchangeOk L (conn (Suc n + k)) (rest ! k)"
    proof (intro allI impI)
      fix k assume "k \<le> j'"
      then have "Suc k \<le> j" using Suc by simp
      from Cons.prems(2)[rule_format, OF this]
      show "exchangeOk L (conn (Suc n + k)) (rest ! k)" by simp
    qed
    have c: "\<forall>k < j'. errorKey L (conn (Suc n + k)) = None"
    proof (intro allI impI)
      fix k assume "k < j'"
      then have "Suc k < j" using Suc by simp
      from Cons.prems(3)[rule_format, OF this]
      show "errorKey L (conn (Suc n + k)) = None" by simp
    qed
    have d: "errorKey L (conn (Suc n + j')) = Some e" using Cons.prems(4) Suc by simp
    from Cons.IH[OF a b c d] have ih: "hostfwdLoop L conn apiSocket (Suc n) rest =
        (Some (Errorf ''error from slirp4netns while setting up port redirection: %v''
                 [AJson e]),
         exchangesFrom L apiSocket (Suc n) (take (Suc j') rest), [Suc n ..< Suc n + Suc j'])" .
    show ?thesis
      using Suc
      by (simp add: loop_step_accept[of L conn n i, OF ok0 acc] ih upt_rec
          del: hostfwdLoop.simps)
  qed
qed

lemma sample_exchanges:
  "exchangeOk sampleLib connAccepting i" "exchangeOk sampleLib connRejecting i"
  "errorKey sampleLib connAccepting = None"
  "errorKey sampleLib connRejecting = Some (JStr ''bad port'')"
  by (simp_all add: exchangeOk_def errorKey_def response_def connAccepting_def
      connRejecting_def sampleLib_def sample_Marshal_cmd_def sample_Unmarshal_def
      respEmpty_def respBadPort_def jstr_def Let_def)

text \<open>
  C8. Let the API socket have appeared, and let every exchange up to the one considered
  go through (dial, marshal, write, half-close and read succeed, and the response is a
  JSON object). The mappings are handled in the order of the list, mapping number \<open>k\<close>
  on the connection opened by dial number \<open>k\<close>. If the response to mapping \<open>j\<close> is
  the first with an \<^verbatim>\<open>"error"\<close> key, the function returns the error built from that
  entry; the trace holds the exchanges of the mappings \<open>0\<close> to \<open>j\<close> and nothing for
  the later ones, and after them only the deferred closes: nothing is sent to undo the
  earlier registrations. If no response has the key, all mappings are exchanged and the
  function returns no error.
\<close>

theorem hostfwd_stops_at_first_rejection:
  assumes "waitForFile apiSocket = None"
  shows "(j < length mappings \<and> (\<forall>k \<le> j. exchangeOk L (conn k) (mappings ! k))
          \<and> (\<forall>k < j. errorKey L (conn k) = None) \<and> errorKey L (conn j) = Some e
          \<longrightarrow> setupRootlessPortMappingViaSlirp L waitForFile conn mappings apiSocket =
               (Some (Errorf ''error from slirp4netns while setting up port redirection: %v''
                        [AJson e]),
                EvWaitForFile apiSocket # exchangesFrom L apiSocket 0 (take (Suc j) mappings)
                  @ closeConns conn (rev [0 ..< Suc j]) @ [EvCloseChan]))
       \<and> ((\<forall>k < length mappings. exchangeOk L (conn k) (mappings ! k)
                \<and> errorKey L (conn k) = None)
          \<longrightarrow> setupRootlessPortMappingViaSlirp L waitForFile conn mappings apiSocket =
               (None,
                EvWaitForFile apiSocket # exchangesFrom L apiSocket 0 mappings
                  @ [LogDebugf ''slirp4netns port-forwarding setup via add_hostfwd is ready'' []]
                  @ closeConns conn (rev [0 ..< length mappings]) @ [EvCloseChan]))"
proof (intro conjI impI)
  assume h: "j < length mappings \<and> (\<forall>k \<le> j. exchangeOk L (conn k) (mappings ! k))
          \<and> (\<forall>k < j. errorKey L (conn k) = None) \<and> errorKey L (conn j) = Some e"
  then have "hostfwdLoop L conn apiSocket 0 mappings =
        (Some (Errorf ''error from slirp4netns while setting up port redirection: %v''
                 [AJson e]),
         exchangesFrom L apiSocket 0 (take (Suc j) mappings), [0 ..< 0 + Suc j])"
    by (intro loop_first_reject) simp_all
  then show "setupRootlessPortMappingViaSlirp L waitForFile conn mappings apiSocket =
               (Some (Errorf ''error from slirp4netns while setting up port redirection: %v''
                        [AJson e]),
                EvWaitForFile apiSocket # exchangesFrom L apiSocket 0 (take (Suc j) mappings)
                  @ closeConns conn (rev [0 ..< Suc j]) @ [EvCloseChan])"
    using assms by (simp add: setupRootlessPortMappingViaSlirp_def)
next
  assume h: "\<forall>k < length mappings. exchangeOk L (conn k) (mappings ! k)
                \<and> errorKey L (conn k) = None"
  then have "hostfwdLoop L conn apiSocket 0 mappings =
        (None, exchangesFrom L apiSocket 0 mappings, [0 ..< 0 + length mappings])"
    by (intro loop_all_accept) simp
  then show "setupRootlessPortMappingViaSlirp L waitForFile conn mappings apiSocket =
               (None,
                EvWaitForFile apiSocket # exchangesFrom L apiSocket 0 mappings
                  @ [LogDebugf ''slirp4netns port-forwarding setup via add_hostfwd is ready'' []]
                  @ closeConns conn (rev [0 ..< length mappings]) @ [EvCloseChan])"
    using assms by (simp add: setupRootlessPortMappingViaSlirp_def)
qed

theorem hostfwd_stops_at_first_rejection_witness:
  "setupRootlessPortMappingViaSlirp sampleLib (\<lambda>path. None) secondRejected sampleMappings
     ''/tmp/c0ffee.net''
   = (Some (Errorf ''error from slirp4netns while setting up port redirection: %v''
              [AJson (JStr ''bad port'')]),
      EvWaitForFile ''/tmp/c0ffee.net''
        # exchangesFrom sampleLib ''/tmp/c0ffee.net'' 0 (take 2 sampleMappings)
        @ [EvConnClose 1, EvConnClose 0] @ [EvCloseChan])
   \<and> setupRootlessPortMappingViaSlirp sampleLib (\<lambda>path. None) (\<lambda>n. connAccepting)
       sampleMappings ''/tmp/c0ffee.net''
   = (None,
      EvWaitForFile ''/tmp/c0ffee.net''
        # exchangesFrom sampleLib ''/tmp/c0ffee.net'' 0 sampleMappings
        @ [LogDebugf ''slirp4netns port-forwarding setup via add_hostfwd is ready'' []]
        @ [EvConnClose 2, EvConnClose 1, EvConnClose 0] @ [EvCloseChan])"
proof -
  have len: "length sampleMappings = 3"
    by (simp add: sampleMappings_def)
  have two: "Suc 1 = 2"
    by simp
  have cl: "closeConns secondRejected (rev [0 ..< 2]) = [EvConnClose 1, EvConnClose 0]"
    "closeConns (\<lambda>n. connAccepting) (rev [0 ..< 3])
      = [EvConnClose 2, EvConnClose 1, EvConnClose 0]"
    by (simp_all add: upt_rec secondRejected_def connAccepting_def connRejecting_def)
  have p1: "1 < length sampleMappings
      \<and> (\<forall>k \<le> 1. exchangeOk sampleLib (secondRejected k) (sampleMappings ! k))
      \<and> (\<forall>k < 1. errorKey sampleLib (secondRejected k) = None)
      \<and> errorKey sampleLib (secondRejected 1) = Some (JStr ''bad port'')"
    by (simp add: len secondRejected_def sample_exchanges)
  have p2: "\<forall>k < length sampleMappings.
      exchangeOk sampleLib ((\<lambda>n. connAccepting) k) (sampleMappings ! k)
      \<and> errorKey sampleLib ((\<lambda>n. connAccepting) k) = None"
    by (simp add: sample_exchanges)
  note r1 = hostfwd_stops_at_first_rejection[of "\<lambda>path. None" "''/tmp/c0ffee.net''" 1
      sampleMappings sampleLib secondRejected "JStr ''bad port''", OF refl,
      THEN conjunct1, THEN mp, OF p1]
  note r2 = hostfwd_stops_at_first_rejection[of "\<lambda>path. None" "''/tmp/c0ffee.net''" 0
      sampleMappings sampleLib "\<lambda>n. connAccepting" "JStr ''bad port''", OF refl,
      THEN conjunct2, THEN mp, OF p2]
  from r1 r2 show ?thesis
    by (simp only: two len cl)
qed

section \<open>Properties of setupSlirp4netns\<close>

text \<open>
  C6. When no path of the helper is configured and \<^verbatim>\<open>exec.LookPath("slirp4netns")\<close>
  fails, \<^verbatim>\<open>setupSlirp4netns\<close> returns \<^verbatim>\<open>nil\<close>. Its whole trace is the look-up and one
  message logged at error level: no pipe is opened, no file created, no process
  started.
\<close>

theorem setupSlirp4netns_without_helper:
  "NetworkCmdPath cfg = '''' \<Longrightarrow> exec_LookPath W ''slirp4netns'' = Inl err \<Longrightarrow>
     setupSlirp4netns W L K cfg ctr =
       (Some None,
        [EvLookPath ''slirp4netns'',
         LogErrorf
           (''could not find slirp4netns, the network namespace won'' @ [CHR 0x27]
              @ ''t be configured: %v'')
           [AErr err]])"
proof -
  assume "NetworkCmdPath cfg = ''''" and "exec_LookPath W ''slirp4netns'' = Inl err"
  then have "(if NetworkCmdPath cfg = '''' then exec_LookPath W ''slirp4netns''
              else Inr (NetworkCmdPath cfg)) = Inl err"
    by simp
  then show ?thesis
    by (simp add: setupSlirp4netns_def Let_def)
qed

theorem setupSlirp4netns_without_helper_witness:
  "setupSlirp4netns sampleWorld sampleLib sampleConsts sampleConfig sampleContainer =
     (Some None,
      [EvLookPath ''slirp4netns'',
       LogErrorf
         (''could not find slirp4netns, the network namespace won'' @ [CHR 0x27]
            @ ''t be configured: %v'')
         [AErr (OSError ''executable file not found in $PATH'' False)]])"
proof -
  have a: "NetworkCmdPath sampleConfig = ''''"
    by (simp add: sampleConfig_def)
  have b: "exec_LookPath sampleWorld ''slirp4netns''
      = Inl (OSError ''executable file not found in $PATH'' False)"
    by (simp add: sampleWorld_def)
  from setupSlirp4netns_without_helper[OF a b] show ?thesis .
qed

end
